theory Spec2Isabelle
  imports Main
begin

section \<open>JavaScript values and string helpers\<close>

text \<open>
  A JavaScript object whose properties hold strings (a request body, a cookie jar, the
  pending-user payload, the result of the token helper) is a map from property names to
  strings. A property that is missing reads as \<open>undefined\<close>, which is \<open>None\<close>.
\<close>

type_synonym obj = "string \<rightharpoonup> string"

type_synonym objectId = nat

text \<open>Truthiness of a value that is a string or \<open>undefined\<close>: only a non-empty string is truthy.\<close>

definition truthy :: "string option \<Rightarrow> bool" where
  "truthy v = (case v of None \<Rightarrow> False | Some s \<Rightarrow> s \<noteq> [])"

text \<open>The operator \<open>a || b\<close> on such values.\<close>

definition js_or :: "string option \<Rightarrow> string option \<Rightarrow> string option" where
  "js_or a b = (if truthy a then a else b)"

text \<open>
  \<open>String.prototype.trim\<close> removes white space at both ends. Characters are code units
  below 256 here: tab, line feed, vertical tab, form feed, carriage return, space and the
  no-break space.
\<close>

definition js_whitespace :: "char \<Rightarrow> bool" where
  "js_whitespace c = (c \<in> set [CHR 0x09, CHR 0x0A, CHR 0x0B, CHR 0x0C, CHR 0x0D, CHR 0x20, CHR 0xA0])"

definition trim :: "string \<Rightarrow> string" where
  "trim s = rev (dropWhile js_whitespace (rev (dropWhile js_whitespace s)))"

text \<open>
  \<open>String.prototype.toLowerCase\<close> on code units below 256: the letters A to Z and the
  Latin-1 capitals U+00C0 to U+00DE, the multiplication sign U+00D7 apart, move up by 32.
\<close>

definition toLowerCase_char :: "char \<Rightarrow> char" where
  "toLowerCase_char c =
     (let n = (of_char c :: nat) in
      if (65 \<le> n \<and> n \<le> 90) \<or> (192 \<le> n \<and> n \<le> 222 \<and> n \<noteq> 215) then char_of (n + 32)
      else c)"

definition toLowerCase :: "string \<Rightarrow> string" where
  "toLowerCase s = map toLowerCase_char s"

text \<open>
  \<open>s.split(",")\<close>: the pieces between the commas; a string with \<open>n\<close> commas gives
  \<open>n + 1\<close> pieces, so the empty string gives one empty piece.
\<close>

fun split_comma :: "string \<Rightarrow> string list" where
  "split_comma [] = [[]]"
| "split_comma (c # cs) =
     (if c = CHR '','' then [] # split_comma cs
      else (case split_comma cs of
              [] \<Rightarrow> [[c]]
            | x # xs \<Rightarrow> (c # x) # xs))"

section \<open>Documents\<close>

text \<open>
  The User schema of \<^verbatim>\<open>user.model.js\<close>, in the order of its paths. Fields that
  \<open>select("-password -refreshToken")\<close> can leave out, and the optional ones, are options.
  The timestamps and the version key the schema adds hold no value a handler reads; only
  their casts, which can fail, are modelled (see \<open>new_user\<close>).
\<close>

record user_doc =
  user_id :: objectId
  username :: string
  fullname :: string
  email :: string
  githubId :: string
  password :: "string option"
  profilePic :: "string option"
  watchList :: "objectId list"
  coverImg :: "string option"
  techStack :: "string list"
  domains :: "string list"
  projects :: "objectId list"
  refreshToken :: "string option"

text \<open>
  Modelled from the spec: the OtpVerification model (\<^verbatim>\<open>otp.model.js\<close> is not among the
  sources): an \<open>email\<close> and the hashed \<open>otp\<close>. Its library-managed expiry removes a
  record in the background; an expired record is one that is no longer in the collection.
\<close>

record otp_doc =
  otp_id :: objectId
  otp_email :: string
  otp :: string

text \<open>
  Modelled from the spec: the Project model (\<^verbatim>\<open>project.model.js\<close> is not among the
  sources), with the fields the controller writes. Owners are stored as references.
\<close>

record project_doc =
  project_id :: objectId
  name :: "string option"
  repoId :: "string option"
  url :: "string option"
  description :: "string option"
  domain :: "string option"
  techStacks :: "string list"
  stars :: "string option"
  owners :: "objectId list"
  videos :: "string list"
  images :: "string list"
  thumbnail :: string

section \<open>The world a request handler runs in\<close>

text \<open>
  The three collections, the supply of fresh object ids, and the two outside effects of the
  controller: files handed to the object store and mails handed to the mail transport.
\<close>

record world =
  User :: "user_doc list"
  OtpVerification :: "otp_doc list"
  Project :: "project_doc list"
  nextObjectId :: objectId
  uploaded :: "string list"
  mailed :: "(string \<times> string) list"

datatype upload_result = UploadThrows string | UploadReturns "string option"

record jwt_payload =
  jwt_id :: "objectId option"
  jwt_email :: "string option"
  jwt_username :: "string option"

text \<open>
  The libraries and the process environment, as parameters: bcrypt, jsonwebtoken (signing and
  verifying read the clock), the validators of \<^verbatim>\<open>utils/validator.js\<close>, the upload helper
  of \<^verbatim>\<open>utils/cloudinary.js\<close> (it throws an error with a message, or returns \<open>null\<close> or an
  object with a \<open>url\<close>), the validation of the Project schema, the mail transport, the
  casts Mongoose applies to a string at an ObjectId, a Date and a Number path (a cast that
  fails is \<open>None\<close> or \<open>False\<close>), and the secrets.
\<close>

record env =
  bcrypt_hash :: "string \<Rightarrow> string \<Rightarrow> string"
  bcrypt_compare :: "string \<Rightarrow> string \<Rightarrow> bool"
  jwt_sign :: "jwt_payload \<Rightarrow> string \<Rightarrow> string \<Rightarrow> nat \<Rightarrow> string"
  jwt_verify :: "string \<Rightarrow> string \<Rightarrow> nat \<Rightarrow> jwt_payload option"
  isValidEmail :: "string option \<Rightarrow> bool"
  isValidGitHubId :: "string option \<Rightarrow> bool"
  uploadFileToCloudinary :: "string \<Rightarrow> upload_result"
  Project_validate :: "project_doc \<Rightarrow> bool"
  sendMail :: "string \<Rightarrow> bool"
  castObjectId :: "string \<Rightarrow> objectId option"
  castDate :: "string \<Rightarrow> bool"
  castNumber :: "string \<Rightarrow> bool"
  ACCESS_TOKEN_SECRET :: string
  ACCESS_TOKEN_EXPIRY :: string
  REFRESH_TOKEN_SECRET :: string
  REFRESH_TOKEN_EXPIRY :: string

text \<open>What a handler reads from outside during one request: the clock and the random values.\<close>

record ambient =
  now :: nat
  genSalt :: string
  otpCode :: string

section \<open>Requests, responses, errors\<close>

record request =
  body :: obj
  body_userData :: "obj option"
  cookies :: obj
  params :: obj
  files :: "string \<rightharpoonup> string list"
  req_user :: "user_doc option"

text \<open>
  An exception is an \<open>ApiError\<close> with its status and message, or anything else that was
  thrown (a \<open>TypeError\<close>, an error of the database driver).
\<close>

datatype error = ApiError nat string | Thrown string

datatype data =
    PendingUser obj
  | UserDoc user_doc
  | LoginData "user_doc option" "string option" "string option"
  | Tokens "string option" "string option"
  | EmptyObject
  | UserValues obj
  | ProjectObjects "project_doc list"
  | ProjectObject project_doc "user_doc list"
  | SuccessTrue

record cookieOption =
  httpOnly :: bool
  secure :: bool

record response =
  status :: nat
  cookie :: "(string \<times> string option \<times> cookieOption) list"
  clearCookie :: "(string \<times> cookieOption) list"
  json_statusCode :: nat
  json_data :: data
  json_message :: string

type_synonym outcome = "(error + response) \<times> world"

text \<open>\<open>res.status(s).json(new ApiResponse(c, d, m))\<close> with no cookie touched.\<close>

definition respond :: "nat \<Rightarrow> nat \<Rightarrow> data \<Rightarrow> string \<Rightarrow> response" where
  "respond s c d m =
     \<lparr>status = s, cookie = [], clearCookie = [], json_statusCode = c, json_data = d,
      json_message = m\<rparr>"

text \<open>
  The \<open>catch\<close> block shared by the handlers: an \<open>ApiError\<close> is thrown again, anything
  else becomes a 500 with the handler's message.
\<close>

definition rethrow :: "string \<Rightarrow> error \<Rightarrow> error" where
  "rethrow msg e = (case e of ApiError s m \<Rightarrow> ApiError s m | Thrown _ \<Rightarrow> ApiError 500 msg)"

section \<open>Queries\<close>

text \<open>\<open>Model.findOne(filter)\<close>: the first document, in collection order, that matches.\<close>

definition findOne :: "('a \<Rightarrow> bool) \<Rightarrow> 'a list \<Rightarrow> 'a option" where
  "findOne P xs = find P xs"

definition findById :: "objectId option \<Rightarrow> user_doc list \<Rightarrow> user_doc option" where
  "findById i xs = (case i of None \<Rightarrow> None | Some k \<Rightarrow> find (\<lambda>u. user_id u = k) xs)"

text \<open>\<open>.select("-password -refreshToken")\<close> on a query result.\<close>

definition select_public :: "user_doc \<Rightarrow> user_doc" where
  "select_public u = u\<lparr>password := None, refreshToken := None\<rparr>"

text \<open>
  A filter \<open>{ field: value }\<close> on a required string field: a value that is \<open>undefined\<close>
  matches no document, since every stored document has the field.
\<close>

definition field_is :: "string \<Rightarrow> string option \<Rightarrow> bool" where
  "field_is stored v = (v = Some stored)"

text \<open>
  The setters the User schema declares on its string paths: \<open>username\<close> is trimmed and
  lower-cased, \<open>fullname\<close>, \<open>email\<close> and \<open>githubId\<close> are trimmed. Mongoose applies
  them when a document is built from a payload and also when it casts the value of a query
  filter on the path.
\<close>

definition username_setters :: "string \<Rightarrow> string" where
  "username_setters s = toLowerCase (trim s)"

definition username_is :: "user_doc \<Rightarrow> string option \<Rightarrow> bool" where
  "username_is u v = field_is (username u) (map_option username_setters v)"

definition email_is :: "user_doc \<Rightarrow> string option \<Rightarrow> bool" where
  "email_is u v = field_is (email u) (map_option trim v)"

definition githubId_is :: "user_doc \<Rightarrow> string option \<Rightarrow> bool" where
  "githubId_is u v = field_is (githubId u) (map_option trim v)"

section \<open>The User model\<close>

text \<open>
  The \<open>pre("save")\<close> hook: nothing when the password is not modified, else the password
  is replaced by its bcrypt hash under a fresh salt.
\<close>

definition pre_save :: "env \<Rightarrow> ambient \<Rightarrow> bool \<Rightarrow> user_doc \<Rightarrow> user_doc" where
  "pre_save E a isModified_password u =
     (if \<not> isModified_password then u
      else u\<lparr>password := map_option (\<lambda>p. bcrypt_hash E p (genSalt a)) (password u)\<rparr>)"

text \<open>
  \<open>bcrypt.compare(data, hash)\<close> rejects when an argument is missing; otherwise it
  answers whether the data matches the hash.
\<close>

definition compare :: "env \<Rightarrow> string option \<Rightarrow> string option \<Rightarrow> error + bool" where
  "compare E d h =
     (case d of
        None \<Rightarrow> Inl (Thrown ''data and hash arguments required'')
      | Some x \<Rightarrow>
          (case h of
             None \<Rightarrow> Inl (Thrown ''data and hash arguments required'')
           | Some y \<Rightarrow> Inr (bcrypt_compare E x y)))"

definition isPasswordCorrect :: "env \<Rightarrow> user_doc \<Rightarrow> string option \<Rightarrow> error + bool" where
  "isPasswordCorrect E u p = compare E p (password u)"

definition generateAccessToken :: "env \<Rightarrow> ambient \<Rightarrow> user_doc \<Rightarrow> string" where
  "generateAccessToken E a u =
     jwt_sign E \<lparr>jwt_id = Some (user_id u), jwt_email = Some (email u),
                 jwt_username = Some (username u)\<rparr>
       (ACCESS_TOKEN_SECRET E) (ACCESS_TOKEN_EXPIRY E) (now a)"

definition generateRefreshToken :: "env \<Rightarrow> ambient \<Rightarrow> user_doc \<Rightarrow> string" where
  "generateRefreshToken E a u =
     jwt_sign E \<lparr>jwt_id = Some (user_id u), jwt_email = None, jwt_username = None\<rparr>
       (REFRESH_TOKEN_SECRET E) (REFRESH_TOKEN_EXPIRY E) (now a)"

text \<open>The payload after the schema's setters.\<close>

definition apply_setters :: "obj \<Rightarrow> obj" where
  "apply_setters ud =
     ud(''username'' := map_option username_setters (ud ''username''),
        ''fullname'' := map_option trim (ud ''fullname''),
        ''email'' := map_option trim (ud ''email''),
        ''githubId'' := map_option trim (ud ''githubId''))"

text \<open>
  The casts of the other paths a payload can set. A value at an array path that is not an
  array is wrapped into an array of one element, and each element of an ObjectId array is
  cast to an ObjectId. A payload without \<open>_id\<close> gets a fresh id. The values of
  \<open>createdAt\<close>, \<open>updatedAt\<close> and \<open>__v\<close> are cast to a Date and a Number.
\<close>

definition cast_id :: "env \<Rightarrow> objectId \<Rightarrow> string option \<Rightarrow> objectId option" where
  "cast_id E fresh v = (case v of None \<Rightarrow> Some fresh | Some s \<Rightarrow> castObjectId E s)"

definition cast_ids :: "env \<Rightarrow> string option \<Rightarrow> objectId list option" where
  "cast_ids E v =
     (case v of
        None \<Rightarrow> Some []
      | Some s \<Rightarrow> (case castObjectId E s of None \<Rightarrow> None | Some i \<Rightarrow> Some [i]))"

definition cast_strings :: "string option \<Rightarrow> string list" where
  "cast_strings v = (case v of None \<Rightarrow> [] | Some s \<Rightarrow> [s])"

definition cast_meta :: "env \<Rightarrow> obj \<Rightarrow> bool" where
  "cast_meta E c =
     ((case c ''createdAt'' of None \<Rightarrow> True | Some s \<Rightarrow> castDate E s) \<and>
      (case c ''updatedAt'' of None \<Rightarrow> True | Some s \<Rightarrow> castDate E s) \<and>
      (case c ''__v'' of None \<Rightarrow> True | Some s \<Rightarrow> castNumber E s))"

definition required_path :: "obj \<Rightarrow> string \<Rightarrow> string" where
  "required_path c k = (case c k of None \<Rightarrow> [] | Some s \<Rightarrow> s)"

text \<open>
  The new document built from a payload of string fields, or \<open>None\<close> when a cast
  fails. Keys the schema does not declare (\<open>position\<close>, \<open>description\<close>) are dropped;
  every path the schema declares is taken from the payload when it has the key.
\<close>

definition new_user :: "env \<Rightarrow> objectId \<Rightarrow> obj \<Rightarrow> user_doc option" where
  "new_user E fresh c =
     (case cast_id E fresh (c ''_id'') of
        None \<Rightarrow> None
      | Some i \<Rightarrow>
     (case cast_ids E (c ''watchList'') of
        None \<Rightarrow> None
      | Some watched \<Rightarrow>
     (case cast_ids E (c ''projects'') of
        None \<Rightarrow> None
      | Some owned \<Rightarrow>
          if \<not> cast_meta E c then None
          else Some \<lparr>user_id = i,
                     username = required_path c ''username'',
                     fullname = required_path c ''fullname'',
                     email = required_path c ''email'',
                     githubId = required_path c ''githubId'',
                     password = c ''password'',
                     profilePic = c ''profilePic'',
                     watchList = watched,
                     coverImg = c ''coverImg'',
                     techStack = cast_strings (c ''techStack''),
                     domains = cast_strings (c ''domains''),
                     projects = owned,
                     refreshToken = c ''refreshToken''\<rparr>)))"

text \<open>
  The \<open>required\<close> validators: each of username, fullname, email, githubId and password
  must be present and, after the setters, not empty.
\<close>

definition validate_user :: "obj \<Rightarrow> bool" where
  "validate_user c =
     (truthy (c ''username'') \<and> truthy (c ''fullname'') \<and> truthy (c ''email'') \<and>
      truthy (c ''githubId'') \<and> truthy (c ''password''))"

text \<open>The unique indexes: \<open>_id\<close>, and \<open>unique\<close> on \<open>username\<close> and \<open>email\<close>.\<close>

definition duplicate_key :: "user_doc list \<Rightarrow> user_doc \<Rightarrow> bool" where
  "duplicate_key us u =
     list_ex (\<lambda>v. user_id v = user_id u \<or> username v = username u \<or> email v = email u) us"

text \<open>
  \<open>User.create(payload)\<close>: cast, validate, run the save hook on the new document (its
  password counts as modified), insert. A payload that is \<open>undefined\<close> sets no path. A
  cast error, a validation error and a duplicate key are thrown and leave the collection as
  it was.
\<close>

definition User_create ::
  "env \<Rightarrow> ambient \<Rightarrow> world \<Rightarrow> obj option \<Rightarrow> (error + user_doc) \<times> world" where
  "User_create E a w payload =
     (let c = apply_setters (case payload of None \<Rightarrow> Map.empty | Some ud \<Rightarrow> ud) in
      case new_user E (nextObjectId w) c of
        None \<Rightarrow> (Inl (Thrown ''ValidationError''), w)
      | Some doc \<Rightarrow>
          if \<not> validate_user c then (Inl (Thrown ''ValidationError''), w)
          else let u = pre_save E a True doc
               in if duplicate_key (User w) u then (Inl (Thrown ''MongoServerError E11000''), w)
                  else (Inr u, w\<lparr>User := User w @ [u], nextObjectId := Suc (nextObjectId w)\<rparr>))"

text \<open>\<open>jwt.verify(token, secret)\<close> throws when the token is missing or does not verify.\<close>

definition verify :: "env \<Rightarrow> ambient \<Rightarrow> string option \<Rightarrow> string \<Rightarrow> jwt_payload option" where
  "verify E a t secret = (case t of None \<Rightarrow> None | Some tok \<Rightarrow> jwt_verify E tok secret (now a))"

text \<open>A value inside a template string: \<open>undefined\<close> prints as the word.\<close>

definition template :: "string option \<Rightarrow> string" where
  "template v = (case v of None \<Rightarrow> ''undefined'' | Some s \<Rightarrow> s)"

text \<open>The \<open>catch\<close> block applied to the outcome of a \<open>try\<close> block.\<close>

definition catch_rethrow :: "string \<Rightarrow> outcome \<Rightarrow> outcome" where
  "catch_rethrow msg r =
     (case r of (Inl e, w) \<Rightarrow> (Inl (rethrow msg e), w) | (Inr x, w) \<Rightarrow> (Inr x, w))"

section \<open>verifyOtp\<close>

text \<open>\<open>req.body?.userData?.email\<close>\<close>

definition ud_email :: "request \<Rightarrow> string option" where
  "ud_email req = (case body_userData req of None \<Rightarrow> None | Some ud \<Rightarrow> ud ''email'')"

text \<open>\<open>OtpVerification.findByIdAndDelete(id)\<close>; ids are unique in a collection.\<close>

definition findByIdAndDelete :: "objectId \<Rightarrow> otp_doc list \<Rightarrow> otp_doc list" where
  "findByIdAndDelete i xs = filter (\<lambda>x. otp_id x \<noteq> i) xs"

definition verifyOtp_try :: "env \<Rightarrow> ambient \<Rightarrow> world \<Rightarrow> request \<Rightarrow> outcome" where
  "verifyOtp_try E a w req =
     (let userOtp = body req ''otp''; em = ud_email req in
      if \<not> truthy userOtp \<or> \<not> truthy em
      then (Inl (ApiError 400 ''OTP and user email are required''), w)
      else (case findOne (\<lambda>x. field_is (otp_email x) em) (OtpVerification w) of
              None \<Rightarrow> (Inl (ApiError 404 ''User not found in database''), w)
            | Some otpVer \<Rightarrow>
                (case compare E userOtp (Some (otp otpVer)) of
                   Inl e \<Rightarrow> (Inl e, w)
                 | Inr doesOtpMatch \<Rightarrow>
                     if \<not> doesOtpMatch then (Inl (ApiError 400 ''Wrong OTP''), w)
                     else let w1 = w\<lparr>OtpVerification :=
                                       findByIdAndDelete (otp_id otpVer) (OtpVerification w)\<rparr>
                          in (case User_create E a w1 (body_userData req) of
                                (Inl e, w2) \<Rightarrow> (Inl e, w2)
                              | (Inr newUser, w2) \<Rightarrow>
                                  (Inr (respond 200 200 (UserDoc newUser) ''OTP verified''), w2)))))"

definition verifyOtp :: "env \<Rightarrow> ambient \<Rightarrow> world \<Rightarrow> request \<Rightarrow> outcome" where
  "verifyOtp E a w req =
     catch_rethrow ''Verification failed. Please try again.'' (verifyOtp_try E a w req)"

section \<open>Token helper\<close>

definition update_user :: "objectId \<Rightarrow> (user_doc \<Rightarrow> user_doc) \<Rightarrow> user_doc list \<Rightarrow> user_doc list" where
  "update_user i f us = map (\<lambda>u. if user_id u = i then f u else u) us"

text \<open>
  Modelled from the spec: \<^verbatim>\<open>utils/generateAccessTokenAndRefreshToken.js\<close> is not among the
  sources. The spec has it issue a fresh access/refresh pair for the user with the given id
  and persist the refresh token on the User record, overwriting any prior value. The tokens
  come from the two model methods; the save runs the hook with the password unmodified.
  The object it returns carries the pair under the two names \<open>loginUser\<close> reads,
  \<open>accessToken\<close> and \<open>refreshToken\<close>.
\<close>

definition generateAccessTokenAndRefreshToken ::
  "env \<Rightarrow> ambient \<Rightarrow> world \<Rightarrow> objectId \<Rightarrow> (error + obj) \<times> world" where
  "generateAccessTokenAndRefreshToken E a w i =
     (case findById (Some i) (User w) of
        None \<Rightarrow> (Inl (Thrown ''TypeError''), w)
      | Some u \<Rightarrow>
          let accessToken = generateAccessToken E a u;
              refreshToken' = generateRefreshToken E a u
          in (Inr [''accessToken'' \<mapsto> accessToken, ''refreshToken'' \<mapsto> refreshToken'],
              w\<lparr>User := update_user i
                   (\<lambda>v. pre_save E a False (v\<lparr>refreshToken := Some refreshToken'\<rparr>)) (User w)\<rparr>))"

section \<open>loginUser, logoutUser, refreshAccessToken, fetchUserData\<close>

definition cookieOption_secure :: cookieOption where
  "cookieOption_secure = \<lparr>httpOnly = True, secure = True\<rparr>"

definition loginUser :: "env \<Rightarrow> ambient \<Rightarrow> world \<Rightarrow> request \<Rightarrow> outcome" where
  "loginUser E a w req =
     (let em = body req ''email''; un = body req ''username''; pw = body req ''password'' in
      if \<not> (truthy (js_or un em) \<and> truthy pw)
      then (Inl (ApiError 400 ''One identification field and password field is required''), w)
      else (case findOne (\<lambda>u. username_is u un \<or> email_is u em) (User w) of
              None \<Rightarrow> (Inl (ApiError 404 ''User not found''), w)
            | Some foundUser \<Rightarrow>
                (case isPasswordCorrect E foundUser pw of
                   Inl e \<Rightarrow> (Inl e, w)
                 | Inr isPassValid \<Rightarrow>
                     if \<not> isPassValid then (Inl (ApiError 401 ''Incorrect Password''), w)
                     else (case generateAccessTokenAndRefreshToken E a w (user_id foundUser) of
                             (Inl e, w1) \<Rightarrow> (Inl e, w1)
                           | (Inr tokens, w1) \<Rightarrow>
                               let refreshToken' = tokens ''refreshToken'';
                                   accessToken = tokens ''accessToken'';
                                   newUser = map_option select_public
                                               (findById (Some (user_id foundUser)) (User w1))
                               in (Inr \<lparr>status = 200,
                                        cookie = [(''accessToken'', accessToken, cookieOption_secure),
                                                  (''refreshToken'', refreshToken', cookieOption_secure)],
                                        clearCookie = [],
                                        json_statusCode = 200,
                                        json_data = LoginData newUser accessToken refreshToken',
                                        json_message = ''User Logged In Successfully''\<rparr>, w1)))))"

text \<open>
  \<open>User.findByIdAndUpdate(id, { $set: { refreshToken: value } })\<close>. Mongoose removes a key
  whose value is \<open>undefined\<close> from an update before it sends it, so with \<open>undefined\<close>
  nothing is set and the document keeps the field it had; with a string the field of the
  document with that id is set.
\<close>

definition findByIdAndUpdate_set_refreshToken ::
  "objectId \<Rightarrow> string option \<Rightarrow> user_doc list \<Rightarrow> user_doc list" where
  "findByIdAndUpdate_set_refreshToken i v us =
     (case v of
        None \<Rightarrow> us
      | Some t \<Rightarrow> update_user i (\<lambda>u. u\<lparr>refreshToken := Some t\<rparr>) us)"

text \<open>
  \<open>logoutUser\<close> calls it with \<open>refreshToken: undefined\<close>. \<open>req.user\<close> is set by the
  authentication middleware; reading \<open>_id\<close> of a missing \<open>req.user\<close> throws.
\<close>

definition logoutUser :: "env \<Rightarrow> ambient \<Rightarrow> world \<Rightarrow> request \<Rightarrow> outcome" where
  "logoutUser E a w req =
     (case req_user req of
        None \<Rightarrow> (Inl (Thrown ''TypeError''), w)
      | Some ru \<Rightarrow>
          (Inr \<lparr>status = 200, cookie = [],
                clearCookie = [(''refreshToken'', cookieOption_secure),
                               (''accessToken'', cookieOption_secure)],
                json_statusCode = 200, json_data = EmptyObject,
                json_message = ''User Logged Out Successfully''\<rparr>,
           w\<lparr>User := findByIdAndUpdate_set_refreshToken (user_id ru) None (User w)\<rparr>))"

text \<open>
  The \<open>try\<close> block of \<open>refreshAccessToken\<close>. The helper's result is destructured as
  \<open>{ newRefreshToken, accessToken }\<close>: each name reads the property of that name.
\<close>

definition refreshAccessToken_try :: "env \<Rightarrow> ambient \<Rightarrow> world \<Rightarrow> string option \<Rightarrow> outcome" where
  "refreshAccessToken_try E a w incomingRefreshToken =
     (case verify E a incomingRefreshToken (REFRESH_TOKEN_SECRET E) of
        None \<Rightarrow> (Inl (Thrown ''JsonWebTokenError''), w)
      | Some decodedToken \<Rightarrow>
          (case findById (jwt_id decodedToken) (User w) of
             None \<Rightarrow> (Inl (ApiError 401 ''Invalid Refresh Token''), w)
           | Some u \<Rightarrow>
               if incomingRefreshToken \<noteq> refreshToken u
               then (Inl (ApiError 401 ''Refresh token expired or used''), w)
               else (case generateAccessTokenAndRefreshToken E a w (user_id u) of
                       (Inl e, w1) \<Rightarrow> (Inl e, w1)
                     | (Inr tokens, w1) \<Rightarrow>
                         let newRefreshToken = tokens ''newRefreshToken'';
                             accessToken = tokens ''accessToken''
                         in (Inr \<lparr>status = 200,
                                  cookie = [(''accessToken'', accessToken, cookieOption_secure),
                                            (''refreshToken'', newRefreshToken, cookieOption_secure)],
                                  clearCookie = [],
                                  json_statusCode = 200,
                                  json_data = Tokens accessToken newRefreshToken,
                                  json_message = ''Access Token Refreshed''\<rparr>, w1))))"

text \<open>The \<open>catch\<close> of \<open>refreshAccessToken\<close> replaces every error by the same 401.\<close>

definition refreshAccessToken :: "env \<Rightarrow> ambient \<Rightarrow> world \<Rightarrow> request \<Rightarrow> outcome" where
  "refreshAccessToken E a w req =
     (let incomingRefreshToken = js_or (cookies req ''refreshToken'') (body req ''refreshToken'') in
      if \<not> truthy incomingRefreshToken then (Inl (ApiError 401 ''Unauthorized Access''), w)
      else (case refreshAccessToken_try E a w incomingRefreshToken of
              (Inl e, w1) \<Rightarrow> (Inl (ApiError 401 ''Invalid Refresh Token''), w1)
            | (Inr r, w1) \<Rightarrow> (Inr r, w1)))"

text \<open>
  The object \<open>userValues\<close>: the schema has no \<open>position\<close> and no \<open>description\<close>, so
  these two read as \<open>undefined\<close>.
\<close>

definition userValues :: "user_doc \<Rightarrow> obj" where
  "userValues u =
     Map.empty(''fullname'' \<mapsto> fullname u, ''profilePic'' := profilePic u,
               ''coverImg'' := coverImg u, ''username'' \<mapsto> username u,
               ''email'' \<mapsto> email u, ''githubId'' \<mapsto> githubId u)"

definition fetchUserData_try :: "env \<Rightarrow> ambient \<Rightarrow> world \<Rightarrow> string option \<Rightarrow> outcome" where
  "fetchUserData_try E a w incomingRefreshToken =
     (case verify E a incomingRefreshToken (REFRESH_TOKEN_SECRET E) of
        None \<Rightarrow> (Inl (Thrown ''JsonWebTokenError''), w)
      | Some decodedToken \<Rightarrow>
          (case findById (jwt_id decodedToken) (User w) of
             None \<Rightarrow> (Inl (ApiError 401 ''Invalid Refresh Token''), w)
           | Some u \<Rightarrow>
               if incomingRefreshToken \<noteq> refreshToken u
               then (Inl (ApiError 401 ''Refresh token expired or used''), w)
               else (Inr (respond 200 200 (UserValues (userValues u))
                            ''User Data Successfully fetched''), w)))"

definition fetchUserData :: "env \<Rightarrow> ambient \<Rightarrow> world \<Rightarrow> request \<Rightarrow> outcome" where
  "fetchUserData E a w req =
     (let incomingRefreshToken = js_or (cookies req ''refreshToken'') (body req ''refreshToken'') in
      if \<not> truthy incomingRefreshToken then (Inl (ApiError 401 ''Unauthorized Access''), w)
      else (case fetchUserData_try E a w incomingRefreshToken of
              (Inl e, w1) \<Rightarrow> (Inl (ApiError 401 ''Error Fetching Data''), w1)
            | (Inr r, w1) \<Rightarrow> (Inr r, w1)))"

section \<open>registerUser\<close>

text \<open>The test \<open>field?.trim() === ""\<close> of the first check.\<close>

definition blank :: "string option \<Rightarrow> bool" where
  "blank field = (case field of None \<Rightarrow> False | Some s \<Rightarrow> trim s = [])"

text \<open>\<open>result?.url || ""\<close>\<close>

definition url_or_empty :: "string option \<Rightarrow> string" where
  "url_or_empty r = (case r of None \<Rightarrow> [] | Some u \<Rightarrow> u)"

text \<open>
  The upload of the first file of a form field, when the request has the field:
  \<open>req.files.f[0].path\<close> is handed to the upload helper. The call is recorded in the
  world; \<open>onThrow\<close> is what the caller makes of an error of the helper.
\<close>

definition upload_first ::
  "env \<Rightarrow> world \<Rightarrow> string list option \<Rightarrow> (string \<Rightarrow> error) \<Rightarrow> (error + string) \<times> world" where
  "upload_first E w fs onThrow =
     (case fs of
        None \<Rightarrow> (Inr [], w)
      | Some [] \<Rightarrow> (Inl (Thrown ''TypeError''), w)
      | Some (f # _) \<Rightarrow>
          (case uploadFileToCloudinary E f of
             UploadThrows m \<Rightarrow> (Inl (onThrow m), w\<lparr>uploaded := uploaded w @ [f]\<rparr>)
           | UploadReturns r \<Rightarrow> (Inr (url_or_empty r), w\<lparr>uploaded := uploaded w @ [f]\<rparr>)))"

text \<open>
  Modelled from the spec: \<^verbatim>\<open>utils/sendOtpVerificationEmail.js\<close> is not among the sources.
  The spec: a one-time code is generated, hashed, stored keyed by email, and emailed to the
  user. The code and the salt are the random values of the request; storing keyed by email
  replaces a record the email already has; a payload without an email, and a transport
  that refuses the mail, throw.
\<close>

definition sendOtpVerificationEmail ::
  "env \<Rightarrow> ambient \<Rightarrow> world \<Rightarrow> obj \<Rightarrow> (error + unit) \<times> world" where
  "sendOtpVerificationEmail E a w userData =
     (case userData ''email'' of
        None \<Rightarrow> (Inl (Thrown ''ValidationError''), w)
      | Some em \<Rightarrow>
          let hashedOtp = bcrypt_hash E (otpCode a) (genSalt a);
              w1 = w\<lparr>OtpVerification :=
                       filter (\<lambda>x. otp_email x \<noteq> em) (OtpVerification w) @
                         [\<lparr>otp_id = nextObjectId w, otp_email = em, otp = hashedOtp\<rparr>],
                     nextObjectId := Suc (nextObjectId w)\<rparr>
          in if \<not> sendMail E em then (Inl (Thrown ''mail not sent''), w1)
             else (Inr (), w1\<lparr>mailed := mailed w1 @ [(em, otpCode a)]\<rparr>))"

text \<open>The keys of the pending-user payload \<open>registerUser\<close> builds and echoes.\<close>

definition echoed_keys :: "string list" where
  "echoed_keys =
     [''fullname'', ''profilePic'', ''coverImg'', ''username'', ''email'', ''githubId'',
      ''password'', ''position'', ''description'']"

definition registerUser_try :: "env \<Rightarrow> ambient \<Rightarrow> world \<Rightarrow> request \<Rightarrow> outcome" where
  "registerUser_try E a w req =
     (let un = body req ''username''; fn = body req ''fullname''; em = body req ''email'';
          pw = body req ''password''; gh = body req ''githubId'';
          pos = body req ''position''; desc = body req ''description''
      in if list_ex blank [un, fn, em, pw, gh, pos, desc]
         then (Inl (ApiError 400 ''All fields are required''), w)
         else if \<not> isValidEmail E em then (Inl (ApiError 400 ''Email not acceptable''), w)
         else if \<not> isValidGitHubId E gh then (Inl (ApiError 400 ''Github ID not acceptable''), w)
         else (case findOne (\<lambda>u. username_is u un \<or> email_is u em \<or> githubId_is u gh)
                       (User w) of
                 Some existedUser \<Rightarrow>
                   (Inl (ApiError 409 ''Username/email/github already exists''), w)
               | None \<Rightarrow>
                   (case upload_first E w (files req ''profilePic'') Thrown of
                      (Inl e, w1) \<Rightarrow> (Inl e, w1)
                    | (Inr profilePicUrl, w1) \<Rightarrow>
                        (case upload_first E w1 (files req ''coverImg'') Thrown of
                           (Inl e, w2) \<Rightarrow> (Inl e, w2)
                         | (Inr coverImgUrl, w2) \<Rightarrow>
                             (case un of
                                None \<Rightarrow> (Inl (Thrown ''TypeError''), w2)
                              | Some u \<Rightarrow>
                                  let userData =
                                        Map.empty(''fullname'' := fn,
                                                  ''profilePic'' \<mapsto> profilePicUrl,
                                                  ''coverImg'' \<mapsto> coverImgUrl,
                                                  ''username'' \<mapsto> toLowerCase u,
                                                  ''email'' := em,
                                                  ''githubId'' := gh,
                                                  ''password'' := pw,
                                                  ''position'' := pos,
                                                  ''description'' := desc)
                                  in (case sendOtpVerificationEmail E a w2 userData of
                                        (Inl e, w3) \<Rightarrow> (Inl e, w3)
                                      | (Inr _, w3) \<Rightarrow>
                                          (Inr (respond 201 201 (PendingUser userData)
                                                  ''User registered successfully''), w3)))))))"

definition registerUser :: "env \<Rightarrow> ambient \<Rightarrow> world \<Rightarrow> request \<Rightarrow> outcome" where
  "registerUser E a w req =
     catch_rethrow ''Registration failed. Please try again.'' (registerUser_try E a w req)"

section \<open>addProject\<close>

text \<open>
  The owners: one \<open>User.findOne({ username: ownerUsername })\<close> per listed name, under
  \<open>Promise.all\<close>; the filter value goes through the setters of the path. A name without a
  user rejects with a 404 that names it as it was listed; when several are missing the model
  reports the first in list order.
\<close>

fun find_owners :: "user_doc list \<Rightarrow> string list \<Rightarrow> error + user_doc list" where
  "find_owners us [] = Inr []"
| "find_owners us (ownerUsername # rest) =
     (case findOne (\<lambda>u. username_is u (Some ownerUsername)) us of
        None \<Rightarrow> Inl (ApiError 404 (''Owner with username '' @ ownerUsername @ '' not found''))
      | Some u \<Rightarrow>
          (case find_owners us rest of
             Inl e \<Rightarrow> Inl e
           | Inr found \<Rightarrow> Inr (u # found)))"

text \<open>
  The uploads of a list of files under \<open>Promise.all\<close>: every upload is started; a helper
  that throws gives a 500 naming the kind of file.
\<close>

fun upload_each :: "env \<Rightarrow> string \<Rightarrow> string list \<Rightarrow> error + string list" where
  "upload_each E kind [] = Inr []"
| "upload_each E kind (f # fs) =
     (case uploadFileToCloudinary E f of
        UploadThrows m \<Rightarrow> Inl (ApiError 500 (''Error uploading '' @ kind @ '': '' @ m))
      | UploadReturns r \<Rightarrow>
          (case upload_each E kind fs of
             Inl e \<Rightarrow> Inl e
           | Inr urls \<Rightarrow> Inr (url_or_empty r # urls)))"

definition upload_all ::
  "env \<Rightarrow> world \<Rightarrow> string \<Rightarrow> string list option \<Rightarrow> (error + string list) \<times> world" where
  "upload_all E w kind fs =
     (case fs of
        None \<Rightarrow> (Inr [], w)
      | Some paths \<Rightarrow> (upload_each E kind paths, w\<lparr>uploaded := uploaded w @ paths\<rparr>))"

text \<open>\<open>Project.create(project)\<close>: validate against the schema, give it an id, insert.\<close>

definition Project_create :: "env \<Rightarrow> world \<Rightarrow> project_doc \<Rightarrow> (error + project_doc) \<times> world" where
  "Project_create E w p =
     (let newProject = p\<lparr>project_id := nextObjectId w\<rparr> in
      if \<not> Project_validate E newProject then (Inl (Thrown ''ValidationError''), w)
      else (Inr newProject,
            w\<lparr>Project := Project w @ [newProject], nextObjectId := Suc (nextObjectId w)\<rparr>))"

text \<open>
  \<open>user.projects.push(id); await user.save()\<close> on the document the middleware loaded: the
  save pushes the id onto the stored list of the document with that \<open>_id\<close>, after the hook
  (the password is not modified), and throws when the collection has no such document.
\<close>

definition push_project_and_save ::
  "env \<Rightarrow> ambient \<Rightarrow> world \<Rightarrow> user_doc \<Rightarrow> objectId \<Rightarrow> (error + unit) \<times> world" where
  "push_project_and_save E a w ru pid =
     (if \<not> list_ex (\<lambda>u. user_id u = user_id ru) (User w)
      then (Inl (Thrown ''DocumentNotFoundError''), w)
      else (Inr (),
            w\<lparr>User := update_user (user_id ru)
                 (\<lambda>u. pre_save E a False (u\<lparr>projects := projects u @ [pid]\<rparr>)) (User w)\<rparr>))"

text \<open>The three upload steps of \<open>addProject\<close>: videos, images, thumbnail.\<close>

definition upload_media ::
  "env \<Rightarrow> world \<Rightarrow> request \<Rightarrow> (error + string list \<times> string list \<times> string) \<times> world" where
  "upload_media E w req =
     (case upload_all E w ''video'' (files req ''videos'') of
        (Inl e, w1) \<Rightarrow> (Inl e, w1)
      | (Inr videosUrl, w1) \<Rightarrow>
          (case upload_all E w1 ''image'' (files req ''images'') of
             (Inl e, w2) \<Rightarrow> (Inl e, w2)
           | (Inr imagesUrl, w2) \<Rightarrow>
               (case upload_first E w2 (files req ''thumbnail'')
                       (\<lambda>m. ApiError 500 (''Error uploading thumbnail: '' @ m)) of
                  (Inl e, w3) \<Rightarrow> (Inl e, w3)
                | (Inr thumbnailUrl, w3) \<Rightarrow> (Inr (videosUrl, imagesUrl, thumbnailUrl), w3))))"

text \<open>
  The last steps of \<open>addProject\<close>: create the project, push its id, save the user. The
  project object handed to \<open>Project.create\<close> holds the owner documents as \<open>findOne\<close>
  returned them; the collection stores their ids, and the document that is answered carries
  the owner documents themselves.
\<close>

definition create_and_push ::
  "env \<Rightarrow> ambient \<Rightarrow> world \<Rightarrow> user_doc \<Rightarrow> project_doc \<Rightarrow> user_doc list \<Rightarrow> outcome" where
  "create_and_push E a w ru project owners' =
     (case Project_create E w project of
        (Inl e, w4) \<Rightarrow> (Inl e, w4)
      | (Inr newProject, w4) \<Rightarrow>
          (case push_project_and_save E a w4 ru (project_id newProject) of
             (Inl e, w5) \<Rightarrow> (Inl e, w5)
           | (Inr _, w5) \<Rightarrow>
               (Inr (respond 200 200 (ProjectObject newProject owners')
                       ''New project added successfully''),
                w5)))"

definition addProject_try :: "env \<Rightarrow> ambient \<Rightarrow> world \<Rightarrow> request \<Rightarrow> outcome" where
  "addProject_try E a w req =
     (case req_user req of
        None \<Rightarrow> (Inl (ApiError 404 ''User not found''), w)
      | Some ru \<Rightarrow>
      (case body req ''ownersUsernames'' of
        None \<Rightarrow> (Inl (Thrown ''TypeError''), w)
      | Some ownersUsernames \<Rightarrow>
      (case body req ''techStack'' of
        None \<Rightarrow> (Inl (Thrown ''TypeError''), w)
      | Some techStack' \<Rightarrow>
          let ownerUsernames = map trim (split_comma ownersUsernames);
              techStacks' = map trim (split_comma techStack')
          in if \<not> truthy (body req ''name'') \<or> \<not> truthy (body req ''repoId'') \<or>
                \<not> truthy (body req ''url'') \<or> \<not> truthy (body req ''description'') \<or>
                \<not> truthy (body req ''domain'')
             then (Inl (ApiError 400 ''Missing required project data''), w)
             else
      (case find_owners (User w) ownerUsernames of
        Inl e \<Rightarrow> (Inl e, w)
      | Inr owners' \<Rightarrow>
      (case upload_media E w req of
        (Inl e, w3) \<Rightarrow> (Inl e, w3)
      | (Inr (videosUrl, imagesUrl, thumbnailUrl), w3) \<Rightarrow>
          create_and_push E a w3 ru
            \<lparr>project_id = 0, name = body req ''name'', repoId = body req ''repoId'',
             url = body req ''url'', description = body req ''description'',
             domain = body req ''domain'', techStacks = techStacks',
             stars = body req ''stars'', owners = map user_id owners',
             videos = videosUrl, images = imagesUrl, thumbnail = thumbnailUrl\<rparr>
            owners')))))"

definition addProject :: "env \<Rightarrow> ambient \<Rightarrow> world \<Rightarrow> request \<Rightarrow> outcome" where
  "addProject E a w req =
     catch_rethrow ''Internal Server Error while adding project'' (addProject_try E a w req)"

section \<open>fetchUserProjects, fetchProject, sendEmail\<close>

definition Project_findById :: "objectId \<Rightarrow> project_doc list \<Rightarrow> project_doc option" where
  "Project_findById i ps = find (\<lambda>p. project_id p = i) ps"

text \<open>The elements of a list of query results that are not \<open>null\<close>.\<close>

definition not_null :: "'a option list \<Rightarrow> 'a list" where
  "not_null xs = List.map_filter (\<lambda>x. x) xs"

definition fetchUserProjects_try :: "env \<Rightarrow> ambient \<Rightarrow> world \<Rightarrow> request \<Rightarrow> outcome" where
  "fetchUserProjects_try E a w req =
     (let un = params req ''username'' in
      case map_option select_public (findOne (\<lambda>u. username_is u un) (User w)) of
        None \<Rightarrow> (Inl (ApiError 404 (''Owner with username '' @ template un @ '' not found'')), w)
      | Some u \<Rightarrow>
          if projects u = []
          then (Inr (respond 200 200 (ProjectObjects []) ''No projects found for this user''), w)
          else let projectObjects = map (\<lambda>projectId. Project_findById projectId (Project w))
                                        (projects u);
                   validProjects = not_null projectObjects
               in (Inr (respond 200 200 (ProjectObjects validProjects)
                          ''User Projects Successfully fetched''), w))"

definition fetchUserProjects :: "env \<Rightarrow> ambient \<Rightarrow> world \<Rightarrow> request \<Rightarrow> outcome" where
  "fetchUserProjects E a w req =
     catch_rethrow ''Error Fetching User Projects'' (fetchUserProjects_try E a w req)"

text \<open>
  In \<open>fetchProject\<close>, \<open>projects.find(...)\<close> gives \<open>undefined\<close> when the user has no
  project of that name, and reading its \<open>owners\<close> throws.
\<close>

definition fetchProject_try :: "env \<Rightarrow> ambient \<Rightarrow> world \<Rightarrow> request \<Rightarrow> outcome" where
  "fetchProject_try E a w req =
     (let un = params req ''username''; projectName = params req ''projectName'' in
      case map_option select_public (findOne (\<lambda>u. username_is u un) (User w)) of
        None \<Rightarrow> (Inl (ApiError 404 (''Owner with username '' @ template un @ '' not found'')), w)
      | Some u \<Rightarrow>
          let projectIds = projects u;
              projects' = filter (\<lambda>p. project_id p \<in> set projectIds) (Project w)
          in (case find (\<lambda>p. name p = projectName) projects' of
                None \<Rightarrow> (Inl (Thrown ''TypeError''), w)
              | Some project \<Rightarrow>
                  let ownerObjects =
                        map (\<lambda>ownerId. map_option select_public (findById (Some ownerId) (User w)))
                            (owners project);
                      validOwnerObjects = not_null ownerObjects
                  in (Inr (respond 200 200 (ProjectObject project validOwnerObjects)
                             ''Project successfully fetched''), w)))"

definition fetchProject :: "env \<Rightarrow> ambient \<Rightarrow> world \<Rightarrow> request \<Rightarrow> outcome" where
  "fetchProject E a w req =
     catch_rethrow ''Error Fetching User Projects'' (fetchProject_try E a w req)"

definition sendEmail_try :: "env \<Rightarrow> ambient \<Rightarrow> world \<Rightarrow> request \<Rightarrow> outcome" where
  "sendEmail_try E a w req =
     (let un = params req ''username'' in
      case map_option select_public (findOne (\<lambda>u. username_is u un) (User w)) of
        None \<Rightarrow> (Inl (ApiError 404 (''Owner with username '' @ template un @ '' not found'')), w)
      | Some u \<Rightarrow>
          if email u = []
          then (Inl (ApiError 404 (''Email for username '' @ template un @ '' not found'')), w)
          else if \<not> sendMail E (email u) then (Inl (Thrown ''mail not sent''), w)
          else (Inr (respond 200 200 SuccessTrue ''Email sent successfully''),
                w\<lparr>mailed := mailed w @ [(email u, ''Contact Form Submission'')]\<rparr>))"

definition sendEmail :: "env \<Rightarrow> ambient \<Rightarrow> world \<Rightarrow> request \<Rightarrow> outcome" where
  "sendEmail E a w req =
     catch_rethrow ''Error while sending he email.'' (sendEmail_try E a w req)"

section \<open>The exported handlers\<close>

datatype endpoint =
    RegisterUser | LoginUser | LogoutUser | RefreshAccessToken | VerifyOtp
  | FetchUserData | AddProject | FetchUserProjects | FetchProject | SendEmail

fun handle :: "endpoint \<Rightarrow> env \<Rightarrow> ambient \<Rightarrow> world \<Rightarrow> request \<Rightarrow> outcome" where
  "handle RegisterUser = registerUser"
| "handle LoginUser = loginUser"
| "handle LogoutUser = logoutUser"
| "handle RefreshAccessToken = refreshAccessToken"
| "handle VerifyOtp = verifyOtp"
| "handle FetchUserData = fetchUserData"
| "handle AddProject = addProject"
| "handle FetchUserProjects = fetchUserProjects"
| "handle FetchProject = fetchProject"
| "handle SendEmail = sendEmail"

section \<open>What a response shows\<close>

text \<open>The user documents a response body carries, and the plain objects with user fields.\<close>

fun response_users :: "data \<Rightarrow> user_doc list" where
  "response_users (UserDoc u) = [u]"
| "response_users (LoginData u accessToken refreshToken') = (case u of None \<Rightarrow> [] | Some v \<Rightarrow> [v])"
| "response_users (ProjectObject p us) = us"
| "response_users d = []"

fun response_objects :: "data \<Rightarrow> obj list" where
  "response_objects (PendingUser ud) = [ud]"
| "response_objects (UserValues v) = [v]"
| "response_objects d = []"

section \<open>Properties of worlds\<close>

text \<open>Object ids are unique in the User collection.\<close>

definition unique_ids :: "world \<Rightarrow> bool" where
  "unique_ids w = distinct (map user_id (User w))"

text \<open>What identifies an account and guards it: id, username, email and stored password.\<close>

definition credentials :: "user_doc \<Rightarrow> objectId \<times> string \<times> string \<times> string option" where
  "credentials u = (user_id u, username u, email u, password u)"

text \<open>The OTP collection is keyed by email: an email has at most one pending record.\<close>

definition keyed_by_email :: "world \<Rightarrow> bool" where
  "keyed_by_email w = distinct (map otp_email (OtpVerification w))"

text \<open>Every stored password is an output of the bcrypt hash.\<close>

definition is_hash :: "env \<Rightarrow> string option \<Rightarrow> bool" where
  "is_hash E v = (\<exists>d salt. v = Some (bcrypt_hash E d salt))"

definition passwords_hashed :: "env \<Rightarrow> world \<Rightarrow> bool" where
  "passwords_hashed E w = list_all (\<lambda>u. is_hash E (password u)) (User w)"

text \<open>
  The worlds the application can be in: the empty database, a request to any handler, and
  the expiry of pending OTP records in the background.
\<close>

definition empty_world :: world where
  "empty_world =
     \<lparr>User = [], OtpVerification = [], Project = [], nextObjectId = 0, uploaded = [],
      mailed = []\<rparr>"

inductive reachable :: "env \<Rightarrow> world \<Rightarrow> bool" for E :: env where
  start: "reachable E empty_world"
| request: "reachable E w \<Longrightarrow> reachable E (snd (handle ep E a w req))"
| expiry: "reachable E w \<Longrightarrow>
           reachable E (w\<lparr>OtpVerification := filter alive (OtpVerification w)\<rparr>)"

section \<open>A small deployment, for evaluation\<close>

text \<open>
  Stand-ins for the libraries, small enough to evaluate: the hash keeps the salt in front
  of the digest as bcrypt does, and comparing hashes the data again under the salt read
  from the hash; a token names the secret, the user id and the time of signing; an object
  id is written as a run of the letter u.
\<close>

definition example_hash :: "string \<Rightarrow> string \<Rightarrow> string" where
  "example_hash d salt = salt @ ''$'' @ rev d"

definition example_compare :: "string \<Rightarrow> string \<Rightarrow> bool" where
  "example_compare d h = (h = example_hash d (takeWhile (\<lambda>c. c \<noteq> CHR ''$'') h))"

definition example_sign :: "jwt_payload \<Rightarrow> string \<Rightarrow> string \<Rightarrow> nat \<Rightarrow> string" where
  "example_sign pl secret expiresIn clock =
     secret @ ''.'' @ replicate (case jwt_id pl of None \<Rightarrow> 0 | Some i \<Rightarrow> i) (CHR ''u'') @
     ''.'' @ replicate clock (CHR ''t'')"

definition example_verify :: "string \<Rightarrow> string \<Rightarrow> nat \<Rightarrow> jwt_payload option" where
  "example_verify tok secret clock =
     (if take (Suc (length secret)) tok = secret @ ''.''
      then Some \<lparr>jwt_id = Some (length (takeWhile (\<lambda>c. c = CHR ''u'')
                                         (drop (Suc (length secret)) tok))),
                 jwt_email = None, jwt_username = None\<rparr>
      else None)"

definition example_env :: env where
  "example_env =
     \<lparr>bcrypt_hash = example_hash,
      bcrypt_compare = example_compare,
      jwt_sign = example_sign,
      jwt_verify = example_verify,
      isValidEmail = (\<lambda>v. case v of None \<Rightarrow> False | Some s \<Rightarrow> CHR ''@'' \<in> set s),
      isValidGitHubId = truthy,
      uploadFileToCloudinary = (\<lambda>f. UploadReturns (Some (''cdn/'' @ f))),
      Project_validate = (\<lambda>p. owners p \<noteq> []),
      sendMail = (\<lambda>to. True),
      castObjectId = (\<lambda>s. if s \<noteq> [] \<and> list_all (\<lambda>c. c = CHR ''u'') s then Some (length s)
                            else None),
      castDate = (\<lambda>s. s \<noteq> []),
      castNumber = (\<lambda>s. s \<noteq> [] \<and> list_all (\<lambda>c. c \<in> set ''0123456789'') s),
      ACCESS_TOKEN_SECRET = ''A'',
      ACCESS_TOKEN_EXPIRY = ''1d'',
      REFRESH_TOKEN_SECRET = ''R'',
      REFRESH_TOKEN_EXPIRY = ''10d''\<rparr>"

definition example_ambient :: ambient where
  "example_ambient = \<lparr>now = 2, genSalt = ''s2'', otpCode = ''4711''\<rparr>"

definition alice :: user_doc where
  "alice =
     \<lparr>user_id = 1, username = ''alice'', fullname = ''Alice A'', email = ''alice@x.io'',
      githubId = ''alice-gh'', password = Some (example_hash ''wonderland'' ''s1''),
      profilePic = Some [], watchList = [], coverImg = Some [], techStack = [], domains = [],
      projects = [],
      refreshToken = Some (example_sign \<lparr>jwt_id = Some 1, jwt_email = None, jwt_username = None\<rparr>
                             ''R'' ''10d'' 1)\<rparr>"

definition bob_otp :: otp_doc where
  "bob_otp = \<lparr>otp_id = 2, otp_email = ''bob@x.io'', otp = example_hash ''1234'' ''s0''\<rparr>"

definition example_world :: world where
  "example_world =
     \<lparr>User = [alice], OtpVerification = [bob_otp], Project = [], nextObjectId = 3,
      uploaded = [], mailed = [(''bob@x.io'', ''1234'')]\<rparr>"

definition empty_request :: request where
  "empty_request =
     \<lparr>body = Map.empty, body_userData = None, cookies = Map.empty, params = Map.empty,
      files = Map.empty, req_user = None\<rparr>"

text \<open>The payload \<open>registerUser\<close> echoed to Bob, and the ways a client can send it back.\<close>

definition bob_payload :: obj where
  "bob_payload =
     [''fullname'' \<mapsto> ''Bob B'', ''profilePic'' \<mapsto> [], ''coverImg'' \<mapsto> [],
      ''username'' \<mapsto> ''bob'', ''email'' \<mapsto> ''bob@x.io'', ''githubId'' \<mapsto> ''bob-gh'',
      ''password'' \<mapsto> ''builder'', ''position'' \<mapsto> ''dev'', ''description'' \<mapsto> ''hi'']"

definition verify_bob :: request where
  "verify_bob = empty_request\<lparr>body := [''otp'' \<mapsto> ''1234''], body_userData := Some bob_payload\<rparr>"

definition verify_bob_as_alice :: request where
  "verify_bob_as_alice =
     empty_request\<lparr>body := [''otp'' \<mapsto> ''1234''],
                   body_userData := Some (bob_payload(''username'' \<mapsto> ''alice''))\<rparr>"

definition verify_bob_no_password :: request where
  "verify_bob_no_password =
     empty_request\<lparr>body := [''otp'' \<mapsto> ''1234''],
                   body_userData := Some (bob_payload(''password'' := None))\<rparr>"

definition verify_bob_with_projects :: request where
  "verify_bob_with_projects =
     empty_request\<lparr>body := [''otp'' \<mapsto> ''1234''],
                   body_userData := Some (bob_payload(''projects'' \<mapsto> ''x''))\<rparr>"

definition verify_bob_with_id :: request where
  "verify_bob_with_id =
     empty_request\<lparr>body := [''otp'' \<mapsto> ''1234''],
                   body_userData := Some (bob_payload(''_id'' \<mapsto> ''uuuuu'',
                                                      ''watchList'' \<mapsto> ''uu''))\<rparr>"

definition verify_bob_wrong_code :: request where
  "verify_bob_wrong_code =
     empty_request\<lparr>body := [''otp'' \<mapsto> ''0000''], body_userData := Some bob_payload\<rparr>"

definition verify_carol :: request where
  "verify_carol =
     empty_request\<lparr>body := [''otp'' \<mapsto> ''1234''],
                   body_userData := Some (bob_payload(''email'' \<mapsto> ''carol@x.io''))\<rparr>"

text \<open>The record Bob's payload becomes.\<close>

definition bob :: user_doc where
  "bob =
     \<lparr>user_id = 3, username = ''bob'', fullname = ''Bob B'', email = ''bob@x.io'',
      githubId = ''bob-gh'', password = Some (example_hash ''builder'' ''s2''),
      profilePic = Some [], watchList = [], coverImg = Some [], techStack = [], domains = [],
      projects = [], refreshToken = None\<rparr>"

text \<open>Logins, and a refresh with the token stored for Alice.\<close>

definition login_alice :: request where
  "login_alice =
     empty_request\<lparr>body := [''username'' \<mapsto> '' ALICE'', ''password'' \<mapsto> ''wonderland'']\<rparr>"

definition login_alice_wrong_password :: request where
  "login_alice_wrong_password =
     empty_request\<lparr>body := [''username'' \<mapsto> ''alice'', ''password'' \<mapsto> ''looking-glass'']\<rparr>"

definition login_carol :: request where
  "login_carol =
     empty_request\<lparr>body := [''email'' \<mapsto> ''carol@x.io'', ''password'' \<mapsto> ''wonderland'']\<rparr>"

definition refresh_alice :: request where
  "refresh_alice = empty_request\<lparr>cookies := [''refreshToken'' \<mapsto> ''R.u.t'']\<rparr>"

text \<open>Registrations: Carol with every field, without \<open>position\<close>, and two that reuse Alice's name.\<close>

definition register_carol :: request where
  "register_carol =
     empty_request\<lparr>body :=
       [''username'' \<mapsto> ''Carol'', ''fullname'' \<mapsto> ''Carol C'', ''email'' \<mapsto> ''carol@x.io'',
        ''password'' \<mapsto> ''croquet'', ''githubId'' \<mapsto> ''carol-gh'', ''position'' \<mapsto> ''dev'',
        ''description'' \<mapsto> ''hello'']\<rparr>"

definition register_carol_no_position :: request where
  "register_carol_no_position =
     register_carol\<lparr>body := (body register_carol)(''position'' := None)\<rparr>"

definition register_alice_again :: request where
  "register_alice_again =
     register_carol\<lparr>body := (body register_carol)(''username'' \<mapsto> ''Alice'')\<rparr>"

definition register_alice_blank :: request where
  "register_alice_blank =
     register_carol\<lparr>body := (body register_carol)(''username'' \<mapsto> ''alice'',
                                                    ''description'' \<mapsto> ''  '')\<rparr>"

text \<open>Alice adds a project: with herself as owner, with an unknown co-owner, and without a name.\<close>

definition add_project :: request where
  "add_project =
     empty_request\<lparr>req_user := Some (select_public alice),
       body := [''name'' \<mapsto> ''demo'', ''repoId'' \<mapsto> ''r1'', ''url'' \<mapsto> ''x.io/demo'',
                ''description'' \<mapsto> ''a demo'', ''domain'' \<mapsto> ''web'', ''techStack'' \<mapsto> ''hol, ml'',
                ''stars'' \<mapsto> ''5'', ''ownersUsernames'' \<mapsto> ''ALICE'']\<rparr>"

definition add_project_ghost :: request where
  "add_project_ghost =
     add_project\<lparr>body := (body add_project)(''ownersUsernames'' \<mapsto> ''ALICE, ghost'')\<rparr>"

definition add_project_ghost_no_name :: request where
  "add_project_ghost_no_name =
     add_project\<lparr>body := (body add_project)(''ownersUsernames'' \<mapsto> ''ghost'', ''name'' := None)\<rparr>"

definition demo_project :: project_doc where
  "demo_project =
     \<lparr>project_id = 3, name = Some ''demo'', repoId = Some ''r1'', url = Some ''x.io/demo'',
      description = Some ''a demo'', domain = Some ''web'', techStacks = [''hol'', ''ml''],
      stars = Some ''5'', owners = [1], videos = [], images = [], thumbnail = []\<rparr>"

text \<open>Carol sends back the payload of her registration with the code she was mailed.\<close>

definition carol_payload :: obj where
  "carol_payload =
     [''fullname'' \<mapsto> ''Carol C'', ''profilePic'' \<mapsto> [], ''coverImg'' \<mapsto> [],
      ''username'' \<mapsto> ''carol'', ''email'' \<mapsto> ''carol@x.io'', ''githubId'' \<mapsto> ''carol-gh'',
      ''password'' \<mapsto> ''croquet'', ''position'' \<mapsto> ''dev'', ''description'' \<mapsto> ''hello'']"

definition verify_carol_code :: request where
  "verify_carol_code =
     empty_request\<lparr>body := [''otp'' \<mapsto> ''4711''], body_userData := Some carol_payload\<rparr>"

definition carol :: user_doc where
  "carol =
     \<lparr>user_id = 1, username = ''carol'', fullname = ''Carol C'', email = ''carol@x.io'',
      githubId = ''carol-gh'', password = Some (example_hash ''croquet'' ''s2''),
      profilePic = Some [], watchList = [], coverImg = Some [], techStack = [], domains = [],
      projects = [], refreshToken = None\<rparr>"

section \<open>Basic facts about the queries and the User model\<close>

lemma findOne_Some_mem: "findOne P xs = Some x \<Longrightarrow> x \<in> set xs \<and> P x"
  unfolding findOne_def by (induction xs) (auto split: if_splits)

lemma findOne_None_iff: "findOne P xs = None \<longleftrightarrow> (\<forall>x \<in> set xs. \<not> P x)"
  unfolding findOne_def by (auto simp: find_None_iff)

lemma User_create_fails_world:
  "fst (User_create E a w ud) = Inl e \<Longrightarrow> snd (User_create E a w ud) = w"
  by (auto simp: User_create_def Let_def split: if_splits option.splits)

lemma User_create_thrown: "fst (User_create E a w ud) = Inl e \<Longrightarrow> \<exists>m. e = Thrown m"
  by (auto simp: User_create_def Let_def split: if_splits option.splits)

lemma User_create_ignores_otps:
  "fst (User_create E a (w\<lparr>OtpVerification := xs\<rparr>) ud) = Inl e \<longleftrightarrow>
   fst (User_create E a w ud) = Inl e"
  by (auto simp: User_create_def Let_def split: if_splits option.splits)

lemma distinct_email_deleted:
  assumes "distinct (map otp_email xs)" "x \<in> set xs"
  shows "\<forall>y \<in> set (findByIdAndDelete (otp_id x) xs). otp_email y \<noteq> otp_email x"
  using assms unfolding findByIdAndDelete_def
  by (auto simp: distinct_map inj_on_def)

section \<open>OTP verification consumes the record before the user is created\<close>

text \<open>
  C10. In \<open>verifyOtp\<close> the OTP record is deleted before the User record is created. When
  the request reaches the creation step (the code matches the record found for the email)
  and \<open>User.create\<close> fails, the request ends in the handler's 500 error, no user is added,
  and the record that was found is gone from the OTP collection, which therefore differs
  from the one before the request. With the collection keyed by email, any later
  verification for that email, whatever code and payload it carries, fails with
  404 \<open>User not found in database\<close>: the code cannot be used again.
\<close>

theorem verifyOtp_consumes_record:
  assumes otp: "body req ''otp'' = Some code" "code \<noteq> []"
    and ud: "body_userData req = Some ud" "ud ''email'' = Some em" "em \<noteq> []"
    and found: "findOne (\<lambda>x. field_is (otp_email x) (Some em)) (OtpVerification w) = Some otpVer"
    and match: "bcrypt_compare E code (otp otpVer)"
    and fails: "fst (User_create E a w (Some ud)) = Inl e"
  shows "fst (verifyOtp E a w req) = Inl (ApiError 500 ''Verification failed. Please try again.'')
       \<and> User (snd (verifyOtp E a w req)) = User w
       \<and> OtpVerification (snd (verifyOtp E a w req)) =
           findByIdAndDelete (otp_id otpVer) (OtpVerification w)
       \<and> otpVer \<notin> set (OtpVerification (snd (verifyOtp E a w req)))
       \<and> OtpVerification (snd (verifyOtp E a w req)) \<noteq> OtpVerification w
       \<and> (keyed_by_email w \<and> truthy (body req' ''otp'') \<and> ud_email req' = Some em \<longrightarrow>
            verifyOtp E a' (snd (verifyOtp E a w req)) req' =
              (Inl (ApiError 404 ''User not found in database''), snd (verifyOtp E a w req)))"
proof -
  let ?w1 = "w\<lparr>OtpVerification := findByIdAndDelete (otp_id otpVer) (OtpVerification w)\<rparr>"
  have mem: "otpVer \<in> set (OtpVerification w)" and em: "otp_email otpVer = em"
    using findOne_Some_mem[OF found] by (auto simp: field_is_def)
  have f1: "fst (User_create E a ?w1 (Some ud)) = Inl e"
    using fails by (simp add: User_create_ignores_otps)
  then have s1: "snd (User_create E a ?w1 (Some ud)) = ?w1"
    by (rule User_create_fails_world)
  have r: "User_create E a ?w1 (Some ud) = (Inl e, ?w1)"
    using f1 s1 by (metis prod.collapse)
  obtain m where thrown: "e = Thrown m"
    using User_create_thrown[OF fails] by blast
  have res: "verifyOtp E a w req =
               (Inl (ApiError 500 ''Verification failed. Please try again.''), ?w1)"
    using otp ud found match r thrown
    by (simp add: verifyOtp_def verifyOtp_try_def catch_rethrow_def compare_def ud_email_def
        truthy_def rethrow_def Let_def)
  have gone: "otpVer \<notin> set (findByIdAndDelete (otp_id otpVer) (OtpVerification w))"
    by (simp add: findByIdAndDelete_def)
  have retry: "verifyOtp E a' ?w1 req' = (Inl (ApiError 404 ''User not found in database''), ?w1)"
    if keyed: "keyed_by_email w" and o': "truthy (body req' ''otp'')"
      and e': "ud_email req' = Some em"
  proof -
    have none: "findOne (\<lambda>x. field_is (otp_email x) (Some em))
                  (findByIdAndDelete (otp_id otpVer) (OtpVerification w)) = None"
      using distinct_email_deleted[OF keyed[unfolded keyed_by_email_def] mem] em
      by (auto simp: findOne_None_iff field_is_def)
    show ?thesis
      using o' e' none \<open>em \<noteq> []\<close>
      by (simp add: verifyOtp_def verifyOtp_try_def catch_rethrow_def truthy_def rethrow_def)
  qed
  show ?thesis
    using res gone mem retry by auto
qed

theorem verifyOtp_consumes_record_witness:
  "fst (verifyOtp example_env example_ambient example_world verify_bob_as_alice)
     = Inl (ApiError 500 ''Verification failed. Please try again.'')
   \<and> User (snd (verifyOtp example_env example_ambient example_world verify_bob_as_alice)) = [alice]
   \<and> OtpVerification (snd (verifyOtp example_env example_ambient example_world verify_bob_as_alice)) = []
   \<and> fst (verifyOtp example_env example_ambient
            (snd (verifyOtp example_env example_ambient example_world verify_bob_as_alice))
            verify_bob)
     = Inl (ApiError 404 ''User not found in database'')"
proof -
  have h1: "body verify_bob_as_alice ''otp'' = Some ''1234''" and h2: "''1234'' \<noteq> []"
    and h3: "body_userData verify_bob_as_alice = Some (bob_payload(''username'' \<mapsto> ''alice''))"
    and h4: "(bob_payload(''username'' \<mapsto> ''alice'')) ''email'' = Some ''bob@x.io''"
    and h5: "''bob@x.io'' \<noteq> []"
    by (simp_all add: verify_bob_as_alice_def empty_request_def bob_payload_def)
  have h6: "findOne (\<lambda>x. field_is (otp_email x) (Some ''bob@x.io''))
              (OtpVerification example_world) = Some bob_otp"
    by (simp add: findOne_def field_is_def example_world_def bob_otp_def)
  have h7: "bcrypt_compare example_env ''1234'' (otp bob_otp)"
    by (simp add: example_env_def example_compare_def example_hash_def bob_otp_def)
  have h8: "fst (User_create example_env example_ambient example_world
                   (Some (bob_payload(''username'' \<mapsto> ''alice''))))
             = Inl (Thrown ''MongoServerError E11000'')"
    by (simp add: User_create_def apply_setters_def validate_user_def truthy_def bob_payload_def
        username_setters_def trim_def js_whitespace_def toLowerCase_def toLowerCase_char_def
        Let_def duplicate_key_def new_user_def cast_id_def cast_ids_def cast_meta_def
        cast_strings_def required_path_def pre_save_def example_world_def alice_def)
  have k: "keyed_by_email example_world \<and> truthy (body verify_bob ''otp'') \<and>
           ud_email verify_bob = Some ''bob@x.io''"
    by (simp add: keyed_by_email_def example_world_def verify_bob_def empty_request_def
        truthy_def ud_email_def bob_payload_def)
  show ?thesis
    using verifyOtp_consumes_record[OF h1 h2 h3 h4 h5 h6 h7 h8,
        where req' = verify_bob and a' = example_ambient] k
    by (simp add: findByIdAndDelete_def example_world_def bob_otp_def)
qed

section \<open>What a handler leaves of the User collection\<close>

lemma update_user_credentials:
  "(\<And>u. credentials (f u) = credentials u) \<Longrightarrow> map credentials (update_user i f us) = map credentials us"
  by (induction us) (auto simp: update_user_def)

lemma pre_save_unmodified [simp]: "pre_save E a False u = u"
  by (simp add: pre_save_def)

lemma upload_first_User: "upload_first E w fs h = (r, w') \<Longrightarrow> User w' = User w"
  by (auto simp: upload_first_def split: option.splits list.splits upload_result.splits)

lemma upload_all_User: "upload_all E w k fs = (r, w') \<Longrightarrow> User w' = User w"
  by (auto simp: upload_all_def split: option.splits)

lemma sendOtp_User: "sendOtpVerificationEmail E a w ud = (r, w') \<Longrightarrow> User w' = User w"
  by (auto simp: sendOtpVerificationEmail_def Let_def split: option.splits if_splits)

lemma Project_create_User: "Project_create E w p = (r, w') \<Longrightarrow> User w' = User w"
  by (auto simp: Project_create_def Let_def split: if_splits)

lemma helper_credentials:
  "generateAccessTokenAndRefreshToken E a w i = (r, w') \<Longrightarrow> map credentials (User w') = map credentials (User w)"
  by (auto simp: generateAccessTokenAndRefreshToken_def Let_def credentials_def
      intro!: update_user_credentials split: option.splits)

lemma push_credentials:
  "push_project_and_save E a w ru pid = (r, w') \<Longrightarrow> map credentials (User w') = map credentials (User w)"
  by (auto simp: push_project_and_save_def credentials_def intro!: update_user_credentials split: if_splits)

lemma catch_rethrow_snd [simp]: "snd (catch_rethrow m r) = snd r"
  by (auto simp: catch_rethrow_def split: prod.splits sum.splits)

lemma registerUser_User: "User (snd (registerUser E a w req)) = User w"
proof -
  have "User (snd (registerUser_try E a w req)) = User w"
    unfolding registerUser_try_def Let_def
    by (auto split: option.splits prod.splits sum.splits
        dest!: upload_first_User sendOtp_User)
  thus ?thesis by (simp add: registerUser_def)
qed

lemma loginUser_credentials: "map credentials (User (snd (loginUser E a w req))) = map credentials (User w)"
  unfolding loginUser_def Let_def
  by (auto split: option.splits prod.splits sum.splits dest!: helper_credentials)

lemma logoutUser_credentials: "map credentials (User (snd (logoutUser E a w req))) = map credentials (User w)"
  unfolding logoutUser_def
  by (auto split: option.splits simp: findByIdAndUpdate_set_refreshToken_def)

lemma refreshAccessToken_credentials:
  "map credentials (User (snd (refreshAccessToken E a w req))) = map credentials (User w)"
  unfolding refreshAccessToken_def refreshAccessToken_try_def Let_def
  by (auto split: option.splits prod.splits sum.splits if_splits dest!: helper_credentials)

lemma fetchUserData_User: "User (snd (fetchUserData E a w req)) = User w"
  unfolding fetchUserData_def fetchUserData_try_def Let_def
  by (auto split: option.splits prod.splits sum.splits if_splits)

lemma upload_media_User: "upload_media E w req = (r, w') \<Longrightarrow> User w' = User w"
  unfolding upload_media_def
  by (auto split: prod.splits sum.splits dest!: upload_first_User upload_all_User)

lemma create_and_push_credentials:
  "create_and_push E a w ru p os = (r, w') \<Longrightarrow>
   map credentials (User w') = map credentials (User w)"
  unfolding create_and_push_def
  by (auto split: prod.splits sum.splits dest!: Project_create_User push_credentials)

lemma create_and_push_credentials_snd:
  "map credentials (User (snd (create_and_push E a w ru p os))) = map credentials (User w)"
  using create_and_push_credentials[of E a w ru p os] by (metis prod.collapse)

lemma addProject_credentials:
  "map credentials (User (snd (addProject E a w req))) = map credentials (User w)"
proof -
  have "map credentials (User (snd (addProject_try E a w req))) = map credentials (User w)"
    unfolding addProject_try_def Let_def
    by (auto simp: create_and_push_credentials_snd
        split: option.splits prod.splits sum.splits if_splits dest!: upload_media_User)
  thus ?thesis by (simp add: addProject_def)
qed

lemma fetchUserProjects_User: "User (snd (fetchUserProjects E a w req)) = User w"
  unfolding fetchUserProjects_def fetchUserProjects_try_def Let_def
  by (auto split: option.splits)

lemma fetchProject_User: "User (snd (fetchProject E a w req)) = User w"
  unfolding fetchProject_def fetchProject_try_def Let_def
  by (auto split: option.splits)

lemma sendEmail_User: "User (snd (sendEmail E a w req)) = User w"
  unfolding sendEmail_def sendEmail_try_def Let_def
  by (auto split: option.splits)

lemma duplicate_key_pre_save [simp]:
  "duplicate_key us (pre_save E a b u) = duplicate_key us u"
  by (simp add: duplicate_key_def pre_save_def)

lemma User_create_ok:
  assumes "new_user E (nextObjectId w) (apply_setters ud) = Some doc"
    and "validate_user (apply_setters ud)"
    and "\<not> duplicate_key (User w) doc"
  shows "User_create E a w (Some ud) =
           (Inr (pre_save E a True doc),
            w\<lparr>User := User w @ [pre_save E a True doc],
              nextObjectId := Suc (nextObjectId w)\<rparr>)"
  using assms by (simp add: User_create_def Let_def)

lemma User_create_cases:
  "User_create E a w p = (r, w') \<Longrightarrow>
     (w' = w \<and> (\<exists>m. r = Inl (Thrown m))) \<or>
     (\<exists>u. r = Inr u \<and> w' = w\<lparr>User := User w @ [u], nextObjectId := Suc (nextObjectId w)\<rparr>)"
  by (auto simp: User_create_def Let_def split: if_splits option.splits)

text \<open>
  A payload that carries only the keys \<open>registerUser\<close> echoes sets no path that needs a
  cast: the new document gets the fresh id, empty arrays and no refresh token.
\<close>

lemma apply_setters_other:
  "k \<notin> {''username'', ''fullname'', ''email'', ''githubId''} \<Longrightarrow> apply_setters ud k = ud k"
  by (simp add: apply_setters_def)

lemma new_user_echoed:
  assumes "dom ud \<subseteq> set echoed_keys"
  shows "new_user E i (apply_setters ud) =
           Some \<lparr>user_id = i,
                  username = required_path (apply_setters ud) ''username'',
                  fullname = required_path (apply_setters ud) ''fullname'',
                  email = required_path (apply_setters ud) ''email'',
                  githubId = required_path (apply_setters ud) ''githubId'',
                  password = ud ''password'',
                  profilePic = ud ''profilePic'',
                  watchList = [],
                  coverImg = ud ''coverImg'',
                  techStack = [],
                  domains = [],
                  projects = [],
                  refreshToken = None\<rparr>"
proof -
  have none: "ud k = None" if "k \<notin> set echoed_keys" for k
    using assms that by (auto simp: dom_def)
  have n: "ud ''_id'' = None" "ud ''watchList'' = None" "ud ''projects'' = None"
    "ud ''techStack'' = None" "ud ''domains'' = None" "ud ''refreshToken'' = None"
    "ud ''createdAt'' = None" "ud ''updatedAt'' = None" "ud ''__v'' = None"
    by (rule none, simp add: echoed_keys_def)+
  show ?thesis
    by (simp add: new_user_def apply_setters_other n cast_id_def cast_ids_def cast_strings_def
        cast_meta_def)
qed

lemma verifyOtp_creates:
  "map credentials (User (snd (verifyOtp E a w req))) = map credentials (User w) \<or>
   (\<exists>resp u. fst (verifyOtp E a w req) = Inr resp \<and> status resp = 200 \<and>
       json_data resp = UserDoc u \<and> User (snd (verifyOtp E a w req)) = User w @ [u])"
  unfolding verifyOtp_def verifyOtp_try_def Let_def catch_rethrow_def
  by (auto split: option.splits prod.splits sum.splits if_splits simp: respond_def
      dest!: User_create_cases)

lemmas js_string_defs = trim_def js_whitespace_def toLowerCase_def toLowerCase_char_def
  username_setters_def

lemmas cast_defs = new_user_def cast_id_def cast_ids_def cast_strings_def cast_meta_def

lemma bob_created:
  "map_option (pre_save example_env example_ambient True)
     (new_user example_env 3 (apply_setters bob_payload)) = Some bob"
  by (simp add: pre_save_def cast_defs apply_setters_def bob_payload_def
      js_string_defs required_path_def bob_def example_env_def example_ambient_def Let_def)

section \<open>The outcomes of OTP verification\<close>

text \<open>
  C2, as amended. For a verification request that carries a non-empty code and a non-empty
  email in its payload: it fails with 404 when no pending OTP record exists for the email;
  when the code does not match the stored hash it fails with the invalid-credential error,
  which the handler raises as \<open>ApiError 400 "Wrong OTP"\<close>, and the world, the OTP record
  included, is as before; when the code matches, the payload carries only the keys
  \<open>registerUser\<close> echoes, its five required fields are present and not empty after the
  schema's setters, and the new id, username and email are not taken, the OTP record is
  deleted, the User record built from the payload (username trimmed and lower-cased,
  fullname, email and githubId trimmed, password hashed by the save hook, a fresh id, empty
  lists, no refresh token) is appended, and the response is 200 with that record. No handler
  other than a \<open>verifyOtp\<close> that answers 200 adds a User record: every other request
  leaves the ids, usernames, emails and passwords of the collection as they were.
\<close>

theorem verifyOtp_outcomes:
  "(truthy (body req ''otp'') \<and> truthy (ud_email req) \<and>
    findOne (\<lambda>x. field_is (otp_email x) (ud_email req)) (OtpVerification w) = None
      \<longrightarrow> verifyOtp E a w req = (Inl (ApiError 404 ''User not found in database''), w))
 \<and> (body req ''otp'' = Some code \<and> code \<noteq> [] \<and> truthy (ud_email req) \<and>
    findOne (\<lambda>x. field_is (otp_email x) (ud_email req)) (OtpVerification w) = Some otpVer \<and>
    \<not> bcrypt_compare E code (otp otpVer)
      \<longrightarrow> verifyOtp E a w req = (Inl (ApiError 400 ''Wrong OTP''), w))
 \<and> (body req ''otp'' = Some code \<and> code \<noteq> [] \<and> truthy (ud_email req) \<and>
    findOne (\<lambda>x. field_is (otp_email x) (ud_email req)) (OtpVerification w) = Some otpVer \<and>
    bcrypt_compare E code (otp otpVer) \<and>
    body_userData req = Some ud \<and> dom ud \<subseteq> set echoed_keys \<and>
    ud ''username'' = Some un \<and> ud ''fullname'' = Some fn \<and> ud ''email'' = Some em \<and>
    ud ''githubId'' = Some gh \<and> ud ''password'' = Some pw \<and>
    username_setters un \<noteq> [] \<and> trim fn \<noteq> [] \<and> trim em \<noteq> [] \<and> trim gh \<noteq> [] \<and> pw \<noteq> [] \<and>
    newUser = \<lparr>user_id = nextObjectId w, username = username_setters un, fullname = trim fn,
                email = trim em, githubId = trim gh,
                password = Some (bcrypt_hash E pw (genSalt a)),
                profilePic = ud ''profilePic'', watchList = [], coverImg = ud ''coverImg'',
                techStack = [], domains = [], projects = [], refreshToken = None\<rparr> \<and>
    \<not> duplicate_key (User w) newUser
      \<longrightarrow> verifyOtp E a w req =
            (Inr (respond 200 200 (UserDoc newUser) ''OTP verified''),
             w\<lparr>OtpVerification := findByIdAndDelete (otp_id otpVer) (OtpVerification w),
               User := User w @ [newUser],
               nextObjectId := Suc (nextObjectId w)\<rparr>))
 \<and> (map credentials (User (snd (handle ep E a w r))) = map credentials (User w) \<or>
    (ep = VerifyOtp \<and>
     (\<exists>resp u. fst (handle ep E a w r) = Inr resp \<and> status resp = 200 \<and>
        json_data resp = UserDoc u \<and> User (snd (handle ep E a w r)) = User w @ [u])))"
proof (intro conjI impI)
  assume "truthy (body req ''otp'') \<and> truthy (ud_email req) \<and>
    findOne (\<lambda>x. field_is (otp_email x) (ud_email req)) (OtpVerification w) = None"
  then show "verifyOtp E a w req = (Inl (ApiError 404 ''User not found in database''), w)"
    by (simp add: verifyOtp_def verifyOtp_try_def catch_rethrow_def rethrow_def)
next
  assume "body req ''otp'' = Some code \<and> code \<noteq> [] \<and> truthy (ud_email req) \<and>
    findOne (\<lambda>x. field_is (otp_email x) (ud_email req)) (OtpVerification w) = Some otpVer \<and>
    \<not> bcrypt_compare E code (otp otpVer)"
  then show "verifyOtp E a w req = (Inl (ApiError 400 ''Wrong OTP''), w)"
    by (simp add: verifyOtp_def verifyOtp_try_def catch_rethrow_def rethrow_def compare_def truthy_def)
next
  assume h: "body req ''otp'' = Some code \<and> code \<noteq> [] \<and> truthy (ud_email req) \<and>
    findOne (\<lambda>x. field_is (otp_email x) (ud_email req)) (OtpVerification w) = Some otpVer \<and>
    bcrypt_compare E code (otp otpVer) \<and>
    body_userData req = Some ud \<and> dom ud \<subseteq> set echoed_keys \<and>
    ud ''username'' = Some un \<and> ud ''fullname'' = Some fn \<and> ud ''email'' = Some em \<and>
    ud ''githubId'' = Some gh \<and> ud ''password'' = Some pw \<and>
    username_setters un \<noteq> [] \<and> trim fn \<noteq> [] \<and> trim em \<noteq> [] \<and> trim gh \<noteq> [] \<and> pw \<noteq> [] \<and>
    newUser = \<lparr>user_id = nextObjectId w, username = username_setters un, fullname = trim fn,
                email = trim em, githubId = trim gh,
                password = Some (bcrypt_hash E pw (genSalt a)),
                profilePic = ud ''profilePic'', watchList = [], coverImg = ud ''coverImg'',
                techStack = [], domains = [], projects = [], refreshToken = None\<rparr> \<and>
    \<not> duplicate_key (User w) newUser"
  let ?w1 = "w\<lparr>OtpVerification := findByIdAndDelete (otp_id otpVer) (OtpVerification w)\<rparr>"
  define doc where "doc = newUser\<lparr>password := Some pw\<rparr>"
  from h have echoed: "dom ud \<subseteq> set echoed_keys" by blast
  from h have fields: "ud ''username'' = Some un" "ud ''fullname'' = Some fn"
    "ud ''email'' = Some em" "ud ''githubId'' = Some gh" "ud ''password'' = Some pw"
    by blast+
  from h have filled: "username_setters un \<noteq> []" "trim fn \<noteq> []" "trim em \<noteq> []"
    "trim gh \<noteq> []" "pw \<noteq> []"
    by blast+
  from h have nu: "newUser = \<lparr>user_id = nextObjectId w, username = username_setters un,
                fullname = trim fn, email = trim em, githubId = trim gh,
                password = Some (bcrypt_hash E pw (genSalt a)),
                profilePic = ud ''profilePic'', watchList = [], coverImg = ud ''coverImg'',
                techStack = [], domains = [], projects = [], refreshToken = None\<rparr>"
    by blast
  have built: "new_user E (nextObjectId ?w1) (apply_setters ud) = Some doc"
    unfolding new_user_echoed[OF echoed] doc_def nu
    by (simp add: required_path_def apply_setters_def fields)
  have v: "validate_user (apply_setters ud)"
    by (simp add: validate_user_def apply_setters_def truthy_def fields filled)
  have saved: "pre_save E a True doc = newUser"
    by (simp add: pre_save_def doc_def nu)
  from h have "\<not> duplicate_key (User w) newUser" by blast
  hence nd: "\<not> duplicate_key (User ?w1) doc"
    by (simp add: duplicate_key_def doc_def)
  have "User_create E a ?w1 (Some ud) =
          (Inr newUser, ?w1\<lparr>User := User ?w1 @ [newUser], nextObjectId := Suc (nextObjectId ?w1)\<rparr>)"
    using User_create_ok[OF built v nd, of a] by (simp add: saved)
  with h show "verifyOtp E a w req =
            (Inr (respond 200 200 (UserDoc newUser) ''OTP verified''),
             w\<lparr>OtpVerification := findByIdAndDelete (otp_id otpVer) (OtpVerification w),
               User := User w @ [newUser],
               nextObjectId := Suc (nextObjectId w)\<rparr>)"
    by (simp add: verifyOtp_def verifyOtp_try_def catch_rethrow_def compare_def truthy_def)
next
  show "map credentials (User (snd (handle ep E a w r))) = map credentials (User w) \<or>
    (ep = VerifyOtp \<and>
     (\<exists>resp u. fst (handle ep E a w r) = Inr resp \<and> status resp = 200 \<and>
        json_data resp = UserDoc u \<and> User (snd (handle ep E a w r)) = User w @ [u]))"
    using verifyOtp_creates[of E a w r]
    by (cases ep)
      (simp_all add: registerUser_User loginUser_credentials logoutUser_credentials
        refreshAccessToken_credentials fetchUserData_User addProject_credentials
        fetchUserProjects_User fetchProject_User sendEmail_User)
qed

theorem verifyOtp_outcomes_witness:
  "verifyOtp example_env example_ambient example_world verify_carol
     = (Inl (ApiError 404 ''User not found in database''), example_world)
   \<and> verifyOtp example_env example_ambient example_world verify_bob_wrong_code
     = (Inl (ApiError 400 ''Wrong OTP''), example_world)
   \<and> verifyOtp example_env example_ambient example_world verify_bob
     = (Inr (respond 200 200 (UserDoc bob) ''OTP verified''),
        example_world\<lparr>OtpVerification := [], User := [alice, bob], nextObjectId := 4\<rparr>)"
proof -
  have a: "truthy (body verify_carol ''otp'') \<and> truthy (ud_email verify_carol) \<and>
      findOne (\<lambda>x. field_is (otp_email x) (ud_email verify_carol)) (OtpVerification example_world) = None"
    by (simp add: verify_carol_def empty_request_def bob_payload_def truthy_def ud_email_def
        findOne_def field_is_def example_world_def bob_otp_def)
  have b: "body verify_bob_wrong_code ''otp'' = Some ''0000'' \<and> ''0000'' \<noteq> [] \<and>
      truthy (ud_email verify_bob_wrong_code) \<and>
      findOne (\<lambda>x. field_is (otp_email x) (ud_email verify_bob_wrong_code))
        (OtpVerification example_world) = Some bob_otp \<and>
      \<not> bcrypt_compare example_env ''0000'' (otp bob_otp)"
    by (simp add: verify_bob_wrong_code_def empty_request_def bob_payload_def truthy_def
        ud_email_def findOne_def field_is_def example_world_def bob_otp_def example_env_def
        example_compare_def example_hash_def)
  have c1: "body verify_bob ''otp'' = Some ''1234'' \<and> ''1234'' \<noteq> [] \<and>
      truthy (ud_email verify_bob) \<and>
      findOne (\<lambda>x. field_is (otp_email x) (ud_email verify_bob))
        (OtpVerification example_world) = Some bob_otp \<and>
      bcrypt_compare example_env ''1234'' (otp bob_otp) \<and>
      body_userData verify_bob = Some bob_payload"
    by (simp add: verify_bob_def empty_request_def bob_payload_def truthy_def
        ud_email_def findOne_def field_is_def example_world_def bob_otp_def example_env_def
        example_compare_def example_hash_def)
  have c2: "dom bob_payload \<subseteq> set echoed_keys"
    by (auto simp: bob_payload_def echoed_keys_def split: if_splits)
  have c3: "bob_payload ''username'' = Some ''bob'' \<and> bob_payload ''fullname'' = Some ''Bob B'' \<and>
      bob_payload ''email'' = Some ''bob@x.io'' \<and> bob_payload ''githubId'' = Some ''bob-gh'' \<and>
      bob_payload ''password'' = Some ''builder'' \<and>
      bob_payload ''profilePic'' = Some [] \<and> bob_payload ''coverImg'' = Some []"
    by (simp add: bob_payload_def)
  have c4: "username_setters ''bob'' = ''bob'' \<and> trim ''Bob B'' = ''Bob B'' \<and>
      trim ''bob@x.io'' = ''bob@x.io'' \<and> trim ''bob-gh'' = ''bob-gh''"
    by (simp add: js_string_defs)
  have c5: "bob = \<lparr>user_id = nextObjectId example_world, username = ''bob'', fullname = ''Bob B'',
                email = ''bob@x.io'', githubId = ''bob-gh'',
                password = Some (bcrypt_hash example_env ''builder'' (genSalt example_ambient)),
                profilePic = Some [], watchList = [], coverImg = Some [],
                techStack = [], domains = [], projects = [], refreshToken = None\<rparr> \<and>
      \<not> duplicate_key (User example_world) bob"
    by (simp add: bob_def example_world_def example_env_def example_ambient_def
        duplicate_key_def alice_def)
  have d: "findByIdAndDelete (otp_id bob_otp) (OtpVerification example_world) = []"
    "User example_world @ [bob] = [alice, bob]" "Suc (nextObjectId example_world) = 4"
    by (simp_all add: findByIdAndDelete_def example_world_def)
  have third: "verifyOtp example_env example_ambient example_world verify_bob =
       (Inr (respond 200 200 (UserDoc bob) ''OTP verified''),
        example_world\<lparr>OtpVerification := findByIdAndDelete (otp_id bob_otp) (OtpVerification example_world),
               User := User example_world @ [bob],
               nextObjectId := Suc (nextObjectId example_world)\<rparr>)"
    using verifyOtp_outcomes[where req = verify_bob and code = "''1234''" and w = example_world
          and otpVer = bob_otp and E = example_env and a = example_ambient
          and ud = bob_payload and newUser = bob and un = "''bob''" and fn = "''Bob B''"
          and em = "''bob@x.io''" and gh = "''bob-gh''" and pw = "''builder''"]
      c1 c2 c3 c4 c5
    by simp
  show ?thesis
    using verifyOtp_outcomes[where req = verify_carol and w = example_world
          and E = example_env and a = example_ambient]
      verifyOtp_outcomes[where req = verify_bob_wrong_code and code = "''0000''"
          and w = example_world and otpVer = bob_otp and E = example_env and a = example_ambient]
      a b third d
    by simp
qed

text \<open>
  C2 as stated fails where a pending record exists and the code matches but the payload has
  no password: the record is deleted, the request ends in a 500 and no User is created.
\<close>

theorem verifyOtp_creation_counterexample:
  "OtpVerification example_world = [bob_otp]
   \<and> ud_email verify_bob_no_password = Some (otp_email bob_otp)
   \<and> body verify_bob_no_password ''otp'' = Some ''1234''
   \<and> bcrypt_compare example_env ''1234'' (otp bob_otp)
   \<and> fst (verifyOtp example_env example_ambient example_world verify_bob_no_password)
       = Inl (ApiError 500 ''Verification failed. Please try again.'')
   \<and> User (snd (verifyOtp example_env example_ambient example_world verify_bob_no_password))
       = User example_world
   \<and> OtpVerification (snd (verifyOtp example_env example_ambient example_world verify_bob_no_password))
       = []"
  by (simp add: verifyOtp_def verifyOtp_try_def catch_rethrow_def rethrow_def compare_def
      truthy_def ud_email_def findOne_def field_is_def findByIdAndDelete_def User_create_def
      apply_setters_def validate_user_def js_string_defs cast_defs Let_def
      verify_bob_no_password_def empty_request_def bob_payload_def example_world_def bob_otp_def
      example_env_def example_compare_def example_hash_def)

text \<open>
  A payload that sets a path of the schema to a value its type does not accept is refused
  by the cast, with the same outcome: \<open>projects: "x"\<close> is not an ObjectId.
\<close>

lemma verifyOtp_cast_error:
  "fst (verifyOtp example_env example_ambient example_world verify_bob_with_projects)
       = Inl (ApiError 500 ''Verification failed. Please try again.'')
   \<and> User (snd (verifyOtp example_env example_ambient example_world verify_bob_with_projects))
       = User example_world
   \<and> OtpVerification (snd (verifyOtp example_env example_ambient example_world verify_bob_with_projects))
       = []"
  by (simp add: verifyOtp_def verifyOtp_try_def catch_rethrow_def rethrow_def compare_def
      truthy_def ud_email_def findOne_def field_is_def findByIdAndDelete_def User_create_def
      apply_setters_def validate_user_def js_string_defs cast_defs Let_def
      verify_bob_with_projects_def empty_request_def bob_payload_def example_world_def bob_otp_def
      example_env_def example_compare_def example_hash_def)

text \<open>
  A payload can choose the values of paths that registration never echoes: an \<open>_id\<close>
  and a \<open>watchList\<close> that cast are stored as sent.
\<close>

lemma verifyOtp_client_paths:
  "User (snd (verifyOtp example_env example_ambient example_world verify_bob_with_id))
       = [alice, bob\<lparr>user_id := 5, watchList := [2]\<rparr>]"
  by (simp add: verifyOtp_def verifyOtp_try_def catch_rethrow_def rethrow_def compare_def
      truthy_def ud_email_def findOne_def field_is_def findByIdAndDelete_def User_create_def
      apply_setters_def validate_user_def js_string_defs cast_defs Let_def duplicate_key_def
      required_path_def pre_save_def example_ambient_def
      verify_bob_with_id_def empty_request_def bob_payload_def example_world_def bob_otp_def
      example_env_def example_compare_def example_hash_def bob_def alice_def)

section \<open>Lookups by id\<close>

lemma findById_unique:
  "distinct (map user_id us) \<Longrightarrow> u \<in> set us \<Longrightarrow> findById (Some (user_id u)) us = Some u"
  by (induction us) (auto simp: findById_def)

lemma findById_update_user:
  "(\<And>v. user_id (f v) = user_id v) \<Longrightarrow>
   findById (Some i) (update_user i f us) = map_option f (findById (Some i) us)"
  by (induction us) (auto simp: findById_def update_user_def)

lemma update_user_sets:
  "v \<in> set (update_user i f us) \<Longrightarrow> user_id v = i \<Longrightarrow> (\<And>x. user_id (f x) = user_id x) \<Longrightarrow>
   \<exists>x \<in> set us. v = f x"
  by (auto simp: update_user_def split: if_splits)

lemma helper_found:
  assumes "findById (Some i) (User w) = Some u"
  shows "generateAccessTokenAndRefreshToken E a w i =
           (Inr [''accessToken'' \<mapsto> generateAccessToken E a u,
                 ''refreshToken'' \<mapsto> generateRefreshToken E a u],
            w\<lparr>User := update_user i (\<lambda>v. v\<lparr>refreshToken := Some (generateRefreshToken E a u)\<rparr>)
                         (User w)\<rparr>)"
  using assms by (simp add: generateAccessTokenAndRefreshToken_def Let_def)

lemma example_tokens:
  "generateAccessToken example_env example_ambient alice = ''A.u.tt''"
  "generateRefreshToken example_env example_ambient alice = ''R.u.tt''"
  "refreshToken alice = Some ''R.u.t''"
  by (simp_all add: generateAccessToken_def generateRefreshToken_def example_env_def
      example_ambient_def example_sign_def alice_def numeral_2_eq_2)

section \<open>Logout\<close>

text \<open>
  C3 fails in its first part. For every logout request of an authenticated user
  (\<open>req.user\<close> is set) the response is a 200 success that clears the \<open>refreshToken\<close>
  and the \<open>accessToken\<close> cookie and sets none, as the claim says; but the update the
  handler sends sets \<open>refreshToken\<close> to \<open>undefined\<close>, which sets nothing: the stored
  records, and with them the refresh token stored on the record of \<open>req.user\<close>, are
  after the request what they were before it.
\<close>

theorem logoutUser_keeps_token:
  assumes "req_user req = Some ru"
  shows "fst (logoutUser E a w req) =
           Inr \<lparr>status = 200, cookie = [],
                clearCookie = [(''refreshToken'', \<lparr>httpOnly = True, secure = True\<rparr>),
                               (''accessToken'', \<lparr>httpOnly = True, secure = True\<rparr>)],
                json_statusCode = 200, json_data = EmptyObject,
                json_message = ''User Logged Out Successfully''\<rparr>
       \<and> snd (logoutUser E a w req) = w
       \<and> map_option refreshToken (findById (Some (user_id ru)) (User (snd (logoutUser E a w req)))) =
           map_option refreshToken (findById (Some (user_id ru)) (User w))"
  using assms
  by (simp add: logoutUser_def findByIdAndUpdate_set_refreshToken_def cookieOption_secure_def)

theorem logoutUser_keeps_token_witness:
  "fst (logoutUser example_env example_ambient example_world (empty_request\<lparr>req_user := Some alice\<rparr>)) =
           Inr \<lparr>status = 200, cookie = [],
                clearCookie = [(''refreshToken'', \<lparr>httpOnly = True, secure = True\<rparr>),
                               (''accessToken'', \<lparr>httpOnly = True, secure = True\<rparr>)],
                json_statusCode = 200, json_data = EmptyObject,
                json_message = ''User Logged Out Successfully''\<rparr>
   \<and> map_option refreshToken
        (findById (Some (user_id alice))
           (User (snd (logoutUser example_env example_ambient example_world
                         (empty_request\<lparr>req_user := Some alice\<rparr>))))) = Some (Some ''R.u.t'')"
proof -
  have h: "req_user (empty_request\<lparr>req_user := Some alice\<rparr>) = Some alice"
    by simp
  have f: "map_option refreshToken (findById (Some (user_id alice)) (User example_world)) =
             Some (Some ''R.u.t'')"
    using example_tokens(3) by (simp add: findById_def example_world_def)
  show ?thesis
    using logoutUser_keeps_token[OF h, of example_env example_ambient example_world] f
    by simp
qed

section \<open>Login\<close>

lemma setters_ALICE: "username_setters '' ALICE'' = ''alice''" "username_setters ''ALICE'' = ''alice''"
  "username_setters ''Alice'' = ''alice''"
  by code_simp+

text \<open>
  What the filters of the queries match: a username up to case and surrounding white
  space, an email and a GitHub id up to surrounding white space only.
\<close>

lemma query_filters:
  "username_is alice (Some ''  Alice '')" "\<not> username_is alice (Some ''al ice'')"
  "email_is alice (Some '' alice@x.io '')" "\<not> email_is alice (Some ''Alice@x.io'')"
  "githubId_is alice (Some ''alice-gh '')" "\<not> githubId_is alice (Some ''Alice-gh'')"
  "\<not> username_is alice None" "\<not> email_is alice None" "\<not> githubId_is alice None"
  by (simp_all add: username_is_def email_is_def githubId_is_def field_is_def alice_def) code_simp+

text \<open>
  C5. For every login request that carries a username or an email, and a password: it fails
  with 404 \<open>User not found\<close> when no user has the username or the email (compared, as
  the query does, after the schema's setters on the two paths); it fails with
  401 \<open>Incorrect Password\<close> when the password does not match the stored hash; both
  leave the world as it was. When the password matches, a fresh access and refresh token
  are issued for the user found, the refresh token is stored on the User record in place of
  any prior value, and the 200 response carries both tokens as \<open>httpOnly\<close>, \<open>secure\<close>
  cookies and in its body, next to the user without password and refresh token.
\<close>

theorem loginUser_outcomes:
  "(truthy (js_or (body req ''username'') (body req ''email'')) \<and> truthy (body req ''password'') \<and>
    findOne (\<lambda>u. username_is u (body req ''username'') \<or>
                  email_is u (body req ''email'')) (User w) = None
      \<longrightarrow> loginUser E a w req = (Inl (ApiError 404 ''User not found''), w))
 \<and> (truthy (js_or (body req ''username'') (body req ''email'')) \<and>
    body req ''password'' = Some p \<and> p \<noteq> [] \<and>
    findOne (\<lambda>u. username_is u (body req ''username'') \<or>
                  email_is u (body req ''email'')) (User w) = Some foundUser \<and>
    password foundUser = Some h \<and> \<not> bcrypt_compare E p h
      \<longrightarrow> loginUser E a w req = (Inl (ApiError 401 ''Incorrect Password''), w))
 \<and> (truthy (js_or (body req ''username'') (body req ''email'')) \<and>
    body req ''password'' = Some p \<and> p \<noteq> [] \<and>
    findOne (\<lambda>u. username_is u (body req ''username'') \<or>
                  email_is u (body req ''email'')) (User w) = Some foundUser \<and>
    password foundUser = Some h \<and> bcrypt_compare E p h \<and> unique_ids w \<and>
    accessToken = generateAccessToken E a foundUser \<and>
    newToken = generateRefreshToken E a foundUser
      \<longrightarrow> fst (loginUser E a w req) =
            Inr \<lparr>status = 200,
                 cookie = [(''accessToken'', Some accessToken, \<lparr>httpOnly = True, secure = True\<rparr>),
                           (''refreshToken'', Some newToken, \<lparr>httpOnly = True, secure = True\<rparr>)],
                 clearCookie = [],
                 json_statusCode = 200,
                 json_data = LoginData (Some (select_public foundUser))
                               (Some accessToken) (Some newToken),
                 json_message = ''User Logged In Successfully''\<rparr>
        \<and> findById (Some (user_id foundUser)) (User (snd (loginUser E a w req))) =
            Some (foundUser\<lparr>refreshToken := Some newToken\<rparr>)
        \<and> User (snd (loginUser E a w req)) =
            map (\<lambda>u. if user_id u = user_id foundUser then u\<lparr>refreshToken := Some newToken\<rparr>
                      else u) (User w))"
proof (intro conjI impI)
  assume "truthy (js_or (body req ''username'') (body req ''email'')) \<and> truthy (body req ''password'') \<and>
    findOne (\<lambda>u. username_is u (body req ''username'') \<or>
                  email_is u (body req ''email'')) (User w) = None"
  then show "loginUser E a w req = (Inl (ApiError 404 ''User not found''), w)"
    by (simp add: loginUser_def)
next
  assume "truthy (js_or (body req ''username'') (body req ''email'')) \<and>
    body req ''password'' = Some p \<and> p \<noteq> [] \<and>
    findOne (\<lambda>u. username_is u (body req ''username'') \<or>
                  email_is u (body req ''email'')) (User w) = Some foundUser \<and>
    password foundUser = Some h \<and> \<not> bcrypt_compare E p h"
  then show "loginUser E a w req = (Inl (ApiError 401 ''Incorrect Password''), w)"
    by (simp add: loginUser_def isPasswordCorrect_def compare_def truthy_def)
next
  assume h: "truthy (js_or (body req ''username'') (body req ''email'')) \<and>
    body req ''password'' = Some p \<and> p \<noteq> [] \<and>
    findOne (\<lambda>u. username_is u (body req ''username'') \<or>
                  email_is u (body req ''email'')) (User w) = Some foundUser \<and>
    password foundUser = Some h \<and> bcrypt_compare E p h \<and> unique_ids w \<and>
    accessToken = generateAccessToken E a foundUser \<and>
    newToken = generateRefreshToken E a foundUser"
  let ?ws = "update_user (user_id foundUser) (\<lambda>v. v\<lparr>refreshToken := Some newToken\<rparr>) (User w)"
  from h have mem: "foundUser \<in> set (User w)"
    using findOne_Some_mem by fastforce
  with h have fb: "findById (Some (user_id foundUser)) (User w) = Some foundUser"
    by (simp add: findById_unique unique_ids_def)
  have gen: "generateAccessTokenAndRefreshToken E a w (user_id foundUser) =
           (Inr [''accessToken'' \<mapsto> accessToken, ''refreshToken'' \<mapsto> newToken], w\<lparr>User := ?ws\<rparr>)"
    using helper_found[OF fb, of E a] h by simp
  have fb': "findById (Some (user_id foundUser)) ?ws = Some (foundUser\<lparr>refreshToken := Some newToken\<rparr>)"
    by (simp add: findById_update_user fb)
  have res: "loginUser E a w req =
      (Inr \<lparr>status = 200,
                 cookie = [(''accessToken'', Some accessToken, \<lparr>httpOnly = True, secure = True\<rparr>),
                           (''refreshToken'', Some newToken, \<lparr>httpOnly = True, secure = True\<rparr>)],
                 clearCookie = [],
                 json_statusCode = 200,
                 json_data = LoginData (Some (select_public foundUser))
                               (Some accessToken) (Some newToken),
                 json_message = ''User Logged In Successfully''\<rparr>, w\<lparr>User := ?ws\<rparr>)"
    using h gen fb'
    by (simp add: loginUser_def isPasswordCorrect_def compare_def truthy_def
        cookieOption_secure_def select_public_def Let_def)
  show "fst (loginUser E a w req) =
            Inr \<lparr>status = 200,
                 cookie = [(''accessToken'', Some accessToken, \<lparr>httpOnly = True, secure = True\<rparr>),
                           (''refreshToken'', Some newToken, \<lparr>httpOnly = True, secure = True\<rparr>)],
                 clearCookie = [],
                 json_statusCode = 200,
                 json_data = LoginData (Some (select_public foundUser))
                               (Some accessToken) (Some newToken),
                 json_message = ''User Logged In Successfully''\<rparr>"
    by (simp add: res)
  show "findById (Some (user_id foundUser)) (User (snd (loginUser E a w req))) =
            Some (foundUser\<lparr>refreshToken := Some newToken\<rparr>)"
    by (simp add: res fb')
  show "User (snd (loginUser E a w req)) =
            map (\<lambda>u. if user_id u = user_id foundUser then u\<lparr>refreshToken := Some newToken\<rparr>
                      else u) (User w)"
    by (simp add: res update_user_def)
qed

theorem loginUser_outcomes_witness:
  "loginUser example_env example_ambient example_world login_carol
     = (Inl (ApiError 404 ''User not found''), example_world)
   \<and> loginUser example_env example_ambient example_world login_alice_wrong_password
     = (Inl (ApiError 401 ''Incorrect Password''), example_world)
   \<and> fst (loginUser example_env example_ambient example_world login_alice)
     = Inr \<lparr>status = 200,
            cookie = [(''accessToken'', Some ''A.u.tt'', \<lparr>httpOnly = True, secure = True\<rparr>),
                      (''refreshToken'', Some ''R.u.tt'', \<lparr>httpOnly = True, secure = True\<rparr>)],
            clearCookie = [],
            json_statusCode = 200,
            json_data = LoginData (Some (select_public alice)) (Some ''A.u.tt'') (Some ''R.u.tt''),
            json_message = ''User Logged In Successfully''\<rparr>
   \<and> refreshToken alice = Some ''R.u.t''
   \<and> User (snd (loginUser example_env example_ambient example_world login_alice))
     = [alice\<lparr>refreshToken := Some ''R.u.tt''\<rparr>]"
proof -
  have a: "truthy (js_or (body login_carol ''username'') (body login_carol ''email'')) \<and>
      truthy (body login_carol ''password'') \<and>
      findOne (\<lambda>u. username_is u (body login_carol ''username'') \<or>
                    email_is u (body login_carol ''email'')) (User example_world) = None"
    by (simp add: login_carol_def empty_request_def truthy_def js_or_def findOne_def field_is_def
        username_is_def email_is_def js_string_defs example_world_def alice_def)
  have b: "truthy (js_or (body login_alice_wrong_password ''username'')
                         (body login_alice_wrong_password ''email'')) \<and>
      body login_alice_wrong_password ''password'' = Some ''looking-glass'' \<and>
      ''looking-glass'' \<noteq> [] \<and>
      findOne (\<lambda>u. username_is u (body login_alice_wrong_password ''username'') \<or>
                    email_is u (body login_alice_wrong_password ''email''))
        (User example_world) = Some alice \<and>
      password alice = Some (example_hash ''wonderland'' ''s1'') \<and>
      \<not> bcrypt_compare example_env ''looking-glass'' (example_hash ''wonderland'' ''s1'')"
    by (simp add: login_alice_wrong_password_def empty_request_def truthy_def js_or_def
        findOne_def field_is_def username_is_def email_is_def js_string_defs
        example_world_def alice_def example_env_def example_compare_def
        example_hash_def)
  have c: "truthy (js_or (body login_alice ''username'') (body login_alice ''email'')) \<and>
      body login_alice ''password'' = Some ''wonderland'' \<and> ''wonderland'' \<noteq> [] \<and>
      findOne (\<lambda>u. username_is u (body login_alice ''username'') \<or>
                    email_is u (body login_alice ''email''))
        (User example_world) = Some alice \<and>
      password alice = Some (example_hash ''wonderland'' ''s1'') \<and>
      bcrypt_compare example_env ''wonderland'' (example_hash ''wonderland'' ''s1'') \<and>
      unique_ids example_world \<and>
      ''A.u.tt'' = generateAccessToken example_env example_ambient alice \<and>
      ''R.u.tt'' = generateRefreshToken example_env example_ambient alice"
    using example_tokens setters_ALICE
    by (simp add: login_alice_def empty_request_def truthy_def js_or_def
        findOne_def field_is_def username_is_def email_is_def
        example_world_def alice_def example_env_def example_compare_def
        example_hash_def unique_ids_def)
  have d: "User example_world = [alice]" "user_id alice = 1"
    by (simp_all add: example_world_def alice_def)
  show ?thesis
    using loginUser_outcomes[where req = login_carol and w = example_world
          and E = example_env and a = example_ambient]
      loginUser_outcomes[where req = login_alice_wrong_password and w = example_world
          and E = example_env and a = example_ambient and p = "''looking-glass''"
          and foundUser = alice and h = "example_hash ''wonderland'' ''s1''"]
      loginUser_outcomes[where req = login_alice and w = example_world
          and E = example_env and a = example_ambient and p = "''wonderland''"
          and foundUser = alice and h = "example_hash ''wonderland'' ''s1''"
          and accessToken = "''A.u.tt''" and newToken = "''R.u.tt''"]
      a b c d example_tokens(3)
    by simp
qed

section \<open>Refreshing the access token\<close>

lemma findById_Some_id: "findById i us = Some u \<Longrightarrow> i = Some (user_id u)"
  by (auto simp: findById_def split: option.splits dest: find_Some_iff[THEN iffD1])

lemma findById_Some_mem: "findById i us = Some u \<Longrightarrow> u \<in> set us"
  by (auto simp: findById_def find_Some_iff split: option.splits)

lemma refreshAccessToken_rejects:
  assumes "fst (refreshAccessToken E a w req) = Inl e"
  shows "(e = ApiError 401 ''Unauthorized Access'' \<or> e = ApiError 401 ''Invalid Refresh Token'')
         \<and> User (snd (refreshAccessToken E a w req)) = User w"
  using assms
  by (auto simp: refreshAccessToken_def refreshAccessToken_try_def Let_def
        generateAccessTokenAndRefreshToken_def
      split: if_splits prod.splits sum.splits option.splits)

lemma refreshAccessToken_without_token:
  "js_or (cookies req ''refreshToken'') (body req ''refreshToken'') = None \<Longrightarrow>
   refreshAccessToken E a w req = (Inl (ApiError 401 ''Unauthorized Access''), w)"
  by (simp add: refreshAccessToken_def truthy_def)

text \<open>
  C1, where the code departs from it. Every refresh that succeeds stores a newly issued
  refresh token on the User record whose stored token was presented, but the response does
  not carry it: \<open>refreshAccessToken\<close> reads the property \<open>newRefreshToken\<close> of the
  helper's result, which has \<open>accessToken\<close> and \<open>refreshToken\<close>, so the
  \<open>refreshToken\<close> cookie and the \<open>refreshToken\<close> of the body are \<open>undefined\<close>.
\<close>

theorem refreshAccessToken_returns_no_refresh_token:
  assumes "fst (refreshAccessToken E a w req) = Inr resp"
  shows "\<exists>u. findById (Some (user_id u)) (User w) = Some u
           \<and> refreshToken u = js_or (cookies req ''refreshToken'') (body req ''refreshToken'')
           \<and> User (snd (refreshAccessToken E a w req)) =
               map (\<lambda>v. if user_id v = user_id u
                         then v\<lparr>refreshToken := Some (generateRefreshToken E a u)\<rparr> else v) (User w)
           \<and> resp = \<lparr>status = 200,
                      cookie = [(''accessToken'', Some (generateAccessToken E a u),
                                   \<lparr>httpOnly = True, secure = True\<rparr>),
                                (''refreshToken'', None, \<lparr>httpOnly = True, secure = True\<rparr>)],
                      clearCookie = [],
                      json_statusCode = 200,
                      json_data = Tokens (Some (generateAccessToken E a u)) None,
                      json_message = ''Access Token Refreshed''\<rparr>"
proof -
  let ?t = "js_or (cookies req ''refreshToken'') (body req ''refreshToken'')"
  from assms have t: "truthy ?t"
    by (auto simp: refreshAccessToken_def Let_def split: if_splits)
  from assms t obtain w1 where tr: "refreshAccessToken_try E a w ?t = (Inr resp, w1)"
    and w1: "snd (refreshAccessToken E a w req) = w1"
    by (auto simp: refreshAccessToken_def Let_def split: prod.splits sum.splits)
  from tr obtain d u where d: "verify E a ?t (REFRESH_TOKEN_SECRET E) = Some d"
    and u: "findById (jwt_id d) (User w) = Some u" and eq: "?t = refreshToken u"
    by (auto simp: refreshAccessToken_try_def split: option.splits if_splits)
  have fb: "findById (Some (user_id u)) (User w) = Some u"
    using u findById_Some_id by fastforce
  have gen: "generateAccessTokenAndRefreshToken E a w (user_id u) =
           (Inr [''accessToken'' \<mapsto> generateAccessToken E a u,
                 ''refreshToken'' \<mapsto> generateRefreshToken E a u],
            w\<lparr>User := update_user (user_id u)
                         (\<lambda>v. v\<lparr>refreshToken := Some (generateRefreshToken E a u)\<rparr>) (User w)\<rparr>)"
    by (rule helper_found[OF fb])
  from tr d u eq gen have
    "resp = \<lparr>status = 200,
                      cookie = [(''accessToken'', Some (generateAccessToken E a u),
                                   \<lparr>httpOnly = True, secure = True\<rparr>),
                                (''refreshToken'', None, \<lparr>httpOnly = True, secure = True\<rparr>)],
                      clearCookie = [],
                      json_statusCode = 200,
                      json_data = Tokens (Some (generateAccessToken E a u)) None,
                      json_message = ''Access Token Refreshed''\<rparr>"
    and "w1 = w\<lparr>User := update_user (user_id u)
                         (\<lambda>v. v\<lparr>refreshToken := Some (generateRefreshToken E a u)\<rparr>) (User w)\<rparr>"
    by (auto simp: refreshAccessToken_try_def Let_def cookieOption_secure_def)
  with fb eq w1 show ?thesis
    by (auto simp: update_user_def intro!: exI[of _ u])
qed

lemma refresh_alice_run:
  "refreshAccessToken example_env example_ambient example_world refresh_alice =
     (Inr \<lparr>status = 200,
          cookie = [(''accessToken'', Some ''A.u.tt'', \<lparr>httpOnly = True, secure = True\<rparr>),
                    (''refreshToken'', None, \<lparr>httpOnly = True, secure = True\<rparr>)],
          clearCookie = [],
          json_statusCode = 200,
          json_data = Tokens (Some ''A.u.tt'') None,
          json_message = ''Access Token Refreshed''\<rparr>,
      example_world\<lparr>User := [alice\<lparr>refreshToken := Some ''R.u.tt''\<rparr>]\<rparr>)"
proof -
  have v: "verify example_env example_ambient (Some ''R.u.t'') ''R'' =
             Some \<lparr>jwt_id = Some 1, jwt_email = None, jwt_username = None\<rparr>"
    by (simp add: verify_def example_env_def example_verify_def)
  have fb: "findById (Some 1) [alice] = Some alice"
    by (simp add: findById_def alice_def)
  have gen: "generateAccessTokenAndRefreshToken example_env example_ambient example_world 1 =
           (Inr [''accessToken'' \<mapsto> ''A.u.tt'', ''refreshToken'' \<mapsto> ''R.u.tt''],
            example_world\<lparr>User := [alice\<lparr>refreshToken := Some ''R.u.tt''\<rparr>]\<rparr>)"
    using helper_found[of 1 example_world alice example_env example_ambient] fb example_tokens
    by (simp add: example_world_def update_user_def alice_def)
  show ?thesis
    using v fb gen example_tokens(3)
    by (simp add: refreshAccessToken_def refreshAccessToken_try_def refresh_alice_def
        empty_request_def js_or_def truthy_def Let_def cookieOption_secure_def
        example_world_def example_env_def alice_def)
qed

theorem refreshAccessToken_returns_no_refresh_token_witness:
  "fst (refreshAccessToken example_env example_ambient example_world refresh_alice) =
     Inr \<lparr>status = 200,
          cookie = [(''accessToken'', Some ''A.u.tt'', \<lparr>httpOnly = True, secure = True\<rparr>),
                    (''refreshToken'', None, \<lparr>httpOnly = True, secure = True\<rparr>)],
          clearCookie = [],
          json_statusCode = 200,
          json_data = Tokens (Some ''A.u.tt'') None,
          json_message = ''Access Token Refreshed''\<rparr>
   \<and> User (snd (refreshAccessToken example_env example_ambient example_world refresh_alice)) =
       [alice\<lparr>refreshToken := Some ''R.u.tt''\<rparr>]"
proof -
  have ok: "fst (refreshAccessToken example_env example_ambient example_world refresh_alice) =
     Inr \<lparr>status = 200,
          cookie = [(''accessToken'', Some ''A.u.tt'', \<lparr>httpOnly = True, secure = True\<rparr>),
                    (''refreshToken'', None, \<lparr>httpOnly = True, secure = True\<rparr>)],
          clearCookie = [],
          json_statusCode = 200,
          json_data = Tokens (Some ''A.u.tt'') None,
          json_message = ''Access Token Refreshed''\<rparr>"
    by (simp add: refresh_alice_run)
  from refreshAccessToken_returns_no_refresh_token[OF ok] refresh_alice_run show ?thesis
    by simp
qed

text \<open>
  A refresh token that was stored before a logout is accepted after it: Alice logs out, and
  the token she held still refreshes.
\<close>

lemma logout_then_refresh:
  "status (projr (fst (refreshAccessToken example_env example_ambient
      (snd (logoutUser example_env example_ambient example_world
              (empty_request\<lparr>req_user := Some alice\<rparr>)))
      refresh_alice))) = 200
   \<and> isl (fst (refreshAccessToken example_env example_ambient
      (snd (logoutUser example_env example_ambient example_world
              (empty_request\<lparr>req_user := Some alice\<rparr>)))
      refresh_alice)) = False"
proof -
  have "snd (logoutUser example_env example_ambient example_world
              (empty_request\<lparr>req_user := Some alice\<rparr>)) = example_world"
    by (simp add: logoutUser_def findByIdAndUpdate_set_refreshToken_def)
  thus ?thesis
    by (simp add: refresh_alice_run)
qed

section \<open>Passwords and refresh tokens in responses\<close>

lemma User_create_password:
  assumes "User_create E a w p = (Inr u, w')"
  shows "\<exists>ud d. p = Some ud \<and> ud ''password'' = Some d \<and> d \<noteq> [] \<and>
           password u = Some (bcrypt_hash E d (genSalt a)) \<and> refreshToken u = ud ''refreshToken''"
  using assms
  by (cases p)
     (auto simp: User_create_def Let_def validate_user_def apply_setters_def truthy_def
        pre_save_def new_user_def split: if_splits option.splits)

lemma verify_bob_run:
  "verifyOtp example_env example_ambient example_world verify_bob =
     (Inr (respond 200 200 (UserDoc bob) ''OTP verified''),
      example_world\<lparr>OtpVerification := [], User := [alice, bob], nextObjectId := 4\<rparr>)"
  by (simp add: verifyOtp_def verifyOtp_try_def catch_rethrow_def compare_def
      truthy_def ud_email_def findOne_def field_is_def findByIdAndDelete_def User_create_def
      apply_setters_def validate_user_def js_string_defs cast_defs Let_def duplicate_key_def
      required_path_def pre_save_def example_ambient_def
      verify_bob_def empty_request_def bob_payload_def example_world_def bob_otp_def
      example_env_def example_compare_def example_hash_def bob_def alice_def)

text \<open>
  C4, where the code departs from it. Every \<open>verifyOtp\<close> that succeeds answers with the
  created User document as it was saved: its \<open>password\<close> field is present and holds
  the bcrypt hash of the payload's password, and its \<open>refreshToken\<close> is whatever the
  payload carried under that name.
\<close>

theorem verifyOtp_response_shows_password:
  assumes "fst (verifyOtp E a w req) = Inr resp"
  shows "\<exists>u ud d. response_users (json_data resp) = [u]
           \<and> body_userData req = Some ud \<and> ud ''password'' = Some d
           \<and> password u = Some (bcrypt_hash E d (genSalt a))
           \<and> refreshToken u = ud ''refreshToken''"
proof -
  from assms obtain w1 newUser w2 where
    c: "User_create E a w1 (body_userData req) = (Inr newUser, w2)"
    and r: "resp = respond 200 200 (UserDoc newUser) ''OTP verified''"
    by (auto simp: verifyOtp_def verifyOtp_try_def catch_rethrow_def Let_def
        split: if_splits option.splits sum.splits prod.splits)
  from User_create_password[OF c] r show ?thesis
    by (auto simp: respond_def)
qed

theorem verifyOtp_response_shows_password_witness:
  "fst (verifyOtp example_env example_ambient example_world verify_bob) =
     Inr (respond 200 200 (UserDoc bob) ''OTP verified'')
   \<and> response_users (json_data (respond 200 200 (UserDoc bob) ''OTP verified'')) = [bob]
   \<and> password bob = Some ''s2$redliub''"
proof -
  have ok: "fst (verifyOtp example_env example_ambient example_world verify_bob) =
     Inr (respond 200 200 (UserDoc bob) ''OTP verified'')"
    by (simp add: verify_bob_run)
  from verifyOtp_response_shows_password[OF ok] show ?thesis
    using ok by (simp add: respond_def bob_def example_hash_def)
qed

text \<open>
  The read handlers do as C4 says: the user documents and user objects in the responses of
  login, the user-data fetch, the two project fetches, logout, refresh and the mail handler
  have no \<open>password\<close> and no \<open>refreshToken\<close>. (\<open>addProject\<close> is not among
  them: its response carries the owner documents as the lookup returned them.)
\<close>

lemma not_null_set: "set (not_null xs) = {x. Some x \<in> set xs}"
  by (induction xs) (auto simp: not_null_def List.map_filter_def)

lemma select_public_Some:
  "Some u = map_option select_public x \<Longrightarrow> password u = None \<and> refreshToken u = None"
  by (cases x) (auto simp: select_public_def)

lemma read_responses_strip:
  assumes "ep \<in> {LoginUser, FetchUserData, FetchUserProjects, FetchProject,
                  LogoutUser, RefreshAccessToken, SendEmail}"
    and "fst (handle ep E a w req) = Inr resp"
  shows "(\<forall>u \<in> set (response_users (json_data resp)). password u = None \<and> refreshToken u = None)
       \<and> (\<forall>v \<in> set (response_objects (json_data resp)).
             v ''password'' = None \<and> v ''refreshToken'' = None)"
proof -
  consider "ep = LoginUser" | "ep = FetchUserData" | "ep = FetchUserProjects" | "ep = FetchProject"
    | "ep = LogoutUser" | "ep = RefreshAccessToken" | "ep = SendEmail"
    using assms(1) by auto
  then show ?thesis
  proof cases
    case 1
    with assms(2) show ?thesis
      by (auto simp: loginUser_def Let_def select_public_def
          split: if_splits option.splits sum.splits prod.splits)
  next
    case 2
    with assms(2) show ?thesis
      by (auto simp: fetchUserData_def fetchUserData_try_def Let_def respond_def userValues_def
          split: if_splits option.splits sum.splits prod.splits)
  next
    case 3
    with assms(2) show ?thesis
      by (auto simp: fetchUserProjects_def fetchUserProjects_try_def catch_rethrow_def Let_def
          respond_def split: if_splits option.splits sum.splits prod.splits)
  next
    case 4
    with assms(2) show ?thesis
      by (auto simp: fetchProject_def fetchProject_try_def catch_rethrow_def Let_def
          respond_def not_null_set
          split: if_splits option.splits sum.splits prod.splits dest!: select_public_Some)
  next
    case 5
    with assms(2) show ?thesis
      by (auto simp: logoutUser_def split: option.splits)
  next
    case 6
    with assms(2) show ?thesis
      by (auto simp: refreshAccessToken_def refreshAccessToken_try_def Let_def
          split: if_splits option.splits sum.splits prod.splits)
  next
    case 7
    with assms(2) show ?thesis
      by (auto simp: sendEmail_def sendEmail_try_def catch_rethrow_def Let_def respond_def
          split: if_splits option.splits sum.splits prod.splits)
  qed
qed

section \<open>Registration\<close>

lemmas register_defs = register_carol_def register_carol_no_position_def register_alice_again_def
  register_alice_blank_def empty_request_def

lemma toLowerCase_Carol: "toLowerCase ''Carol'' = ''carol''"
  by code_simp

lemma setters_Carol: "username_setters ''Carol'' = ''carol''"
  by code_simp

text \<open>
  C6, as amended. For every registration request that passes the field checks (no submitted
  field is blank, the email and the GitHub id are accepted by the validators) and for which
  some existing User has the submitted username, the submitted email or the submitted
  githubId, registration fails with 409 and the world is as before: no user record, no
  upload, no OTP record, no mail. The single query compares the submitted values as the
  schema's setters leave them: the username trimmed and lower-cased, the email and the
  githubId trimmed. A request that fails a field check fails with 400, and the world is as
  before as well.
\<close>

theorem registerUser_conflict:
  "(\<not> list_ex blank [body req ''username'', body req ''fullname'', body req ''email'',
                        body req ''password'', body req ''githubId'', body req ''position'',
                        body req ''description''] \<and>
    isValidEmail E (body req ''email'') \<and> isValidGitHubId E (body req ''githubId'') \<and>
    existing \<in> set (User w) \<and>
    (username_is existing (body req ''username'') \<or>
     email_is existing (body req ''email'') \<or>
     githubId_is existing (body req ''githubId''))
      \<longrightarrow> registerUser E a w req =
            (Inl (ApiError 409 ''Username/email/github already exists''), w))
 \<and> (list_ex blank [body req ''username'', body req ''fullname'', body req ''email'',
                      body req ''password'', body req ''githubId'', body req ''position'',
                      body req ''description''] \<or>
    \<not> isValidEmail E (body req ''email'') \<or> \<not> isValidGitHubId E (body req ''githubId'')
      \<longrightarrow> (\<exists>m. registerUser E a w req = (Inl (ApiError 400 m), w)))"
proof (intro conjI impI)
  assume h: "\<not> list_ex blank [body req ''username'', body req ''fullname'', body req ''email'',
                        body req ''password'', body req ''githubId'', body req ''position'',
                        body req ''description''] \<and>
    isValidEmail E (body req ''email'') \<and> isValidGitHubId E (body req ''githubId'') \<and>
    existing \<in> set (User w) \<and>
    (username_is existing (body req ''username'') \<or>
     email_is existing (body req ''email'') \<or>
     githubId_is existing (body req ''githubId''))"
  then have "findOne (\<lambda>u. username_is u (body req ''username'') \<or>
                          email_is u (body req ''email'') \<or>
                          githubId_is u (body req ''githubId'')) (User w) \<noteq> None"
    by (auto simp: findOne_None_iff)
  then obtain x where "findOne (\<lambda>u. username_is u (body req ''username'') \<or>
                          email_is u (body req ''email'') \<or>
                          githubId_is u (body req ''githubId'')) (User w) = Some x"
    by blast
  with h show "registerUser E a w req =
            (Inl (ApiError 409 ''Username/email/github already exists''), w)"
    by (simp add: registerUser_def registerUser_try_def catch_rethrow_def rethrow_def Let_def)
next
  assume "list_ex blank [body req ''username'', body req ''fullname'', body req ''email'',
                      body req ''password'', body req ''githubId'', body req ''position'',
                      body req ''description''] \<or>
    \<not> isValidEmail E (body req ''email'') \<or> \<not> isValidGitHubId E (body req ''githubId'')"
  then show "\<exists>m. registerUser E a w req = (Inl (ApiError 400 m), w)"
    by (auto simp: registerUser_def registerUser_try_def catch_rethrow_def rethrow_def Let_def)
qed

theorem registerUser_conflict_witness:
  "registerUser example_env example_ambient example_world register_alice_again =
     (Inl (ApiError 409 ''Username/email/github already exists''), example_world)
   \<and> (\<exists>m. registerUser example_env example_ambient example_world register_alice_blank =
            (Inl (ApiError 400 m), example_world))"
proof -
  have a: "\<not> list_ex blank [body register_alice_again ''username'',
              body register_alice_again ''fullname'', body register_alice_again ''email'',
              body register_alice_again ''password'', body register_alice_again ''githubId'',
              body register_alice_again ''position'', body register_alice_again ''description''] \<and>
    isValidEmail example_env (body register_alice_again ''email'') \<and>
    isValidGitHubId example_env (body register_alice_again ''githubId'') \<and>
    alice \<in> set (User example_world) \<and>
    (username_is alice (body register_alice_again ''username'') \<or>
     email_is alice (body register_alice_again ''email'') \<or>
     githubId_is alice (body register_alice_again ''githubId''))"
    using setters_ALICE(3)
    by (simp add: register_defs blank_def trim_def js_whitespace_def example_env_def truthy_def
        example_world_def alice_def username_is_def field_is_def)
  have b: "list_ex blank [body register_alice_blank ''username'',
              body register_alice_blank ''fullname'', body register_alice_blank ''email'',
              body register_alice_blank ''password'', body register_alice_blank ''githubId'',
              body register_alice_blank ''position'', body register_alice_blank ''description'']"
    by (simp add: register_defs blank_def js_string_defs)
  show ?thesis
    using registerUser_conflict[where req = register_alice_again and E = example_env
        and existing = alice and w = example_world and a = example_ambient]
      registerUser_conflict[where req = register_alice_blank and E = example_env
        and w = example_world and a = example_ambient]
      a b
    by blast
qed

text \<open>
  C6 as stated fails for a request that reuses Alice's username and has a blank
  description: the field check comes first and the error is the 400, not the conflict.
\<close>

theorem registerUser_conflict_counterexample:
  "User example_world = [alice]
   \<and> body register_alice_blank ''username'' = Some (username alice)
   \<and> registerUser example_env example_ambient example_world register_alice_blank =
       (Inl (ApiError 400 ''All fields are required''), example_world)"
  by (simp add: registerUser_def registerUser_try_def catch_rethrow_def rethrow_def Let_def
      register_defs blank_def js_string_defs example_world_def alice_def)

text \<open>
  C8, where the code departs from it. The first check is \<open>field?.trim() === ""\<close>, which
  is false for a field that is missing. A request without \<open>position\<close>, whose other
  fields pass the checks and match no user in the existence query, is not rejected with a
  400: an OTP record is stored, the code is mailed and the response is the 201 with the
  pending payload.
\<close>

theorem registerUser_accepts_missing_field:
  assumes missing: "body req ''position'' = None"
    and present: "body req ''username'' = Some un" "body req ''email'' = Some em"
    and not_blank: "\<not> list_ex blank [body req ''username'', body req ''fullname'',
                      body req ''email'', body req ''password'', body req ''githubId'',
                      body req ''description'']"
    and valid: "isValidEmail E (body req ''email'')" "isValidGitHubId E (body req ''githubId'')"
    and fresh: "findOne (\<lambda>u. username_is u (body req ''username'') \<or>
                              email_is u (body req ''email'') \<or>
                              githubId_is u (body req ''githubId'')) (User w) = None"
    and no_files: "files req ''profilePic'' = None" "files req ''coverImg'' = None"
    and mail: "sendMail E em"
  shows "\<exists>ud. registerUser E a w req =
           (Inr (respond 201 201 (PendingUser ud) ''User registered successfully''),
            w\<lparr>OtpVerification := filter (\<lambda>x. otp_email x \<noteq> em) (OtpVerification w) @
                 [\<lparr>otp_id = nextObjectId w, otp_email = em,
                   otp = bcrypt_hash E (otpCode a) (genSalt a)\<rparr>],
              nextObjectId := Suc (nextObjectId w),
              mailed := mailed w @ [(em, otpCode a)]\<rparr>)
         \<and> ud ''position'' = None"
proof -
  let ?ud = "Map.empty(''fullname'' := body req ''fullname'', ''profilePic'' \<mapsto> [],
               ''coverImg'' \<mapsto> [], ''username'' \<mapsto> toLowerCase un,
               ''email'' := body req ''email'', ''githubId'' := body req ''githubId'',
               ''password'' := body req ''password'', ''position'' := body req ''position'',
               ''description'' := body req ''description'')"
  have "registerUser E a w req =
           (Inr (respond 201 201 (PendingUser ?ud) ''User registered successfully''),
            w\<lparr>OtpVerification := filter (\<lambda>x. otp_email x \<noteq> em) (OtpVerification w) @
                 [\<lparr>otp_id = nextObjectId w, otp_email = em,
                   otp = bcrypt_hash E (otpCode a) (genSalt a)\<rparr>],
              nextObjectId := Suc (nextObjectId w),
              mailed := mailed w @ [(em, otpCode a)]\<rparr>)"
    using assms
    by (simp add: registerUser_def registerUser_try_def catch_rethrow_def Let_def blank_def
        upload_first_def sendOtpVerificationEmail_def)
  moreover have "?ud ''position'' = None"
    using missing by simp
  ultimately show ?thesis
    by blast
qed

theorem registerUser_accepts_missing_field_witness:
  "body register_carol_no_position ''position'' = None
   \<and> fst (registerUser example_env example_ambient example_world register_carol_no_position) =
       Inr (respond 201 201
              (PendingUser [''fullname'' \<mapsto> ''Carol C'', ''profilePic'' \<mapsto> [], ''coverImg'' \<mapsto> [],
                            ''username'' \<mapsto> ''carol'', ''email'' \<mapsto> ''carol@x.io'',
                            ''githubId'' \<mapsto> ''carol-gh'', ''password'' \<mapsto> ''croquet'',
                            ''description'' \<mapsto> ''hello''])
              ''User registered successfully'')
   \<and> mailed (snd (registerUser example_env example_ambient example_world
                     register_carol_no_position)) =
       [(''bob@x.io'', ''1234''), (''carol@x.io'', ''4711'')]"
proof -
  have h1: "body register_carol_no_position ''position'' = None"
    and h2: "body register_carol_no_position ''username'' = Some ''Carol''"
    and h3: "body register_carol_no_position ''email'' = Some ''carol@x.io''"
    by (simp_all add: register_defs)
  have h4: "\<not> list_ex blank [body register_carol_no_position ''username'',
               body register_carol_no_position ''fullname'',
               body register_carol_no_position ''email'',
               body register_carol_no_position ''password'',
               body register_carol_no_position ''githubId'',
               body register_carol_no_position ''description'']"
    by (simp add: register_defs blank_def trim_def js_whitespace_def)
  have h5: "isValidEmail example_env (body register_carol_no_position ''email'')"
    and h6: "isValidGitHubId example_env (body register_carol_no_position ''githubId'')"
    by (simp_all add: register_defs example_env_def truthy_def)
  have h7: "findOne (\<lambda>u. username_is u (body register_carol_no_position ''username'') \<or>
                        email_is u (body register_carol_no_position ''email'') \<or>
                        githubId_is u (body register_carol_no_position ''githubId''))
              (User example_world) = None"
    using setters_Carol
    by (simp add: register_defs findOne_def field_is_def username_is_def email_is_def
        githubId_is_def trim_def js_whitespace_def example_world_def alice_def)
  have h8: "files register_carol_no_position ''profilePic'' = None"
    and h9: "files register_carol_no_position ''coverImg'' = None"
    by (simp_all add: register_defs)
  have h10: "sendMail example_env ''carol@x.io''"
    by (simp add: example_env_def)
  have run: "fst (registerUser example_env example_ambient example_world register_carol_no_position) =
       Inr (respond 201 201
              (PendingUser [''fullname'' \<mapsto> ''Carol C'', ''profilePic'' \<mapsto> [], ''coverImg'' \<mapsto> [],
                            ''username'' \<mapsto> ''carol'', ''email'' \<mapsto> ''carol@x.io'',
                            ''githubId'' \<mapsto> ''carol-gh'', ''password'' \<mapsto> ''croquet'',
                            ''description'' \<mapsto> ''hello''])
              ''User registered successfully'')"
    using h4 h5 h6 h7 toLowerCase_Carol
    by (simp add: registerUser_def registerUser_try_def catch_rethrow_def Let_def blank_def
      upload_first_def sendOtpVerificationEmail_def register_defs trim_def js_whitespace_def
      example_env_def fun_upd_twist)
  from registerUser_accepts_missing_field[OF h1 h2 h3 h4 h5 h6 h7 h8 h9 h10, of example_ambient]
  show ?thesis
    using h1 run by (auto simp: example_world_def example_ambient_def)
qed

section \<open>Adding a project\<close>

lemma find_owners_missing:
  "n \<in> set names \<Longrightarrow> \<not> list_ex (\<lambda>u. username_is u (Some n)) us \<Longrightarrow>
   \<exists>k. k \<in> set names \<and> \<not> list_ex (\<lambda>u. username_is u (Some k)) us \<and>
       find_owners us names = Inl (ApiError 404 (''Owner with username '' @ k @ '' not found''))"
proof (induction names)
  case Nil
  then show ?case by simp
next
  case (Cons x xs)
  show ?case
  proof (cases "findOne (\<lambda>u. username_is u (Some x)) us")
    case None
    then have "\<not> list_ex (\<lambda>u. username_is u (Some x)) us"
      by (simp add: findOne_None_iff list_ex_iff)
    with None show ?thesis
      by (intro exI[of _ x]) simp
  next
    case (Some u)
    then have "list_ex (\<lambda>u. username_is u (Some x)) us"
      using findOne_Some_mem[OF Some] by (auto simp: list_ex_iff)
    with Cons.prems have "n \<in> set xs" by auto
    from Cons.IH[OF this Cons.prems(2)] obtain k where
      "k \<in> set xs" "\<not> list_ex (\<lambda>u. username_is u (Some k)) us"
      "find_owners us xs = Inl (ApiError 404 (''Owner with username '' @ k @ '' not found''))"
      by blast
    with Some show ?thesis
      by (intro exI[of _ k]) simp
  qed
qed

lemma find_owners_found:
  "find_owners us names = Inr os \<Longrightarrow>
   list_all2 (\<lambda>n u. u \<in> set us \<and> username_is u (Some n)) names os"
proof (induction names arbitrary: os)
  case Nil
  then show ?case by simp
next
  case (Cons x xs)
  then show ?case
    by (auto split: option.splits sum.splits dest: findOne_Some_mem)
qed

lemma find_owners_error: "find_owners us names = Inl e \<Longrightarrow> \<exists>m. e = ApiError 404 m"
  by (induction names) (auto split: option.splits sum.splits)

lemma upload_each_error: "upload_each E k fs = Inl e \<Longrightarrow> \<exists>m. e = ApiError 500 m"
  by (induction fs) (auto split: upload_result.splits sum.splits)

lemma upload_all_frame:
  "upload_all E w k fs = (r, w') \<Longrightarrow>
   User w' = User w \<and> Project w' = Project w \<and> nextObjectId w' = nextObjectId w"
  by (auto simp: upload_all_def split: option.splits)

lemma upload_all_error:
  "upload_all E w k fs = (Inl e, w') \<Longrightarrow> \<exists>m. e = ApiError 500 m"
  by (auto simp: upload_all_def split: option.splits dest: upload_each_error)

lemma upload_first_frame:
  "upload_first E w fs h = (r, w') \<Longrightarrow>
   User w' = User w \<and> Project w' = Project w \<and> nextObjectId w' = nextObjectId w"
  by (auto simp: upload_first_def split: option.splits list.splits upload_result.splits)

lemma upload_first_error:
  "upload_first E w fs (\<lambda>m. ApiError 500 (f m)) = (Inl e, w') \<Longrightarrow>
   (\<exists>m. e = ApiError 500 m) \<or> (\<exists>m. e = Thrown m)"
  by (auto simp: upload_first_def split: option.splits list.splits upload_result.splits)

lemma upload_media_frame:
  "upload_media E w req = (r, w') \<Longrightarrow>
   User w' = User w \<and> Project w' = Project w \<and> nextObjectId w' = nextObjectId w"
  unfolding upload_media_def
  by (auto split: prod.splits sum.splits dest!: upload_all_frame upload_first_frame)

lemma upload_media_error:
  "upload_media E w req = (Inl e, w') \<Longrightarrow> (\<exists>m. e = ApiError 500 m) \<or> (\<exists>m. e = Thrown m)"
  unfolding upload_media_def
  by (auto split: prod.splits sum.splits dest: upload_all_error upload_first_error)

lemma create_and_push_error:
  "create_and_push E a w ru p os = (Inl e, w') \<Longrightarrow> \<exists>m. e = Thrown m"
  unfolding create_and_push_def Project_create_def push_project_and_save_def Let_def
  by (auto split: prod.splits sum.splits if_splits)

lemma create_and_push_success:
  "create_and_push E a w ru p os = (Inr resp, w') \<Longrightarrow>
   resp = respond 200 200 (ProjectObject (p\<lparr>project_id := nextObjectId w\<rparr>) os)
            ''New project added successfully'' \<and>
   list_ex (\<lambda>u. user_id u = user_id ru) (User w) \<and>
   Project w' = Project w @ [p\<lparr>project_id := nextObjectId w\<rparr>] \<and>
   User w' = map (\<lambda>u. if user_id u = user_id ru
                       then u\<lparr>projects := projects u @ [nextObjectId w]\<rparr> else u) (User w)"
  unfolding create_and_push_def Project_create_def push_project_and_save_def Let_def
  by (auto simp: update_user_def split: prod.splits sum.splits if_splits)

lemma addProject_404_unchanged:
  assumes "fst (addProject E a w req) = Inl (ApiError 404 m)"
  shows "snd (addProject E a w req) = w"
proof -
  obtain r w' where t: "addProject_try E a w req = (r, w')"
    by (cases "addProject_try E a w req")
  with assms have r: "r = Inl (ApiError 404 m)"
    by (auto simp: addProject_def catch_rethrow_def rethrow_def split: sum.splits error.splits)
  from t[unfolded r] have "w' = w"
    unfolding addProject_try_def Let_def
    by (auto split: option.splits if_splits sum.splits prod.splits
        dest: upload_media_error create_and_push_error)
  with t show ?thesis
    by (simp add: addProject_def)
qed

lemma addProject_success:
  assumes "fst (addProject E a w req) = Inr resp"
  shows "\<exists>ru ou p os. req_user req = Some ru \<and> body req ''ownersUsernames'' = Some ou \<and>
           list_all2 (\<lambda>n u. u \<in> set (User w) \<and> username_is u (Some n)) (map trim (split_comma ou)) os \<and>
           owners p = map user_id os \<and> project_id p = nextObjectId w \<and>
           resp = respond 200 200 (ProjectObject p os) ''New project added successfully'' \<and>
           Project (snd (addProject E a w req)) = Project w @ [p] \<and>
           list_ex (\<lambda>u. user_id u = user_id ru) (User w) \<and>
           User (snd (addProject E a w req)) =
             map (\<lambda>u. if user_id u = user_id ru
                       then u\<lparr>projects := projects u @ [project_id p]\<rparr> else u) (User w)"
proof -
  obtain w' where t: "addProject_try E a w req = (Inr resp, w')"
    and s: "snd (addProject E a w req) = w'"
    using assms
    by (cases "addProject_try E a w req")
       (auto simp: addProject_def catch_rethrow_def split: sum.splits)
  from t obtain ru ou ts os vs im th w3 where
    ru: "req_user req = Some ru" and ou: "body req ''ownersUsernames'' = Some ou"
    and os: "find_owners (User w) (map trim (split_comma ou)) = Inr os"
    and um: "upload_media E w req = (Inr (vs, im, th), w3)"
    and cp: "create_and_push E a w3 ru
            \<lparr>project_id = 0, name = body req ''name'', repoId = body req ''repoId'',
             url = body req ''url'', description = body req ''description'',
             domain = body req ''domain'', techStacks = map trim (split_comma ts),
             stars = body req ''stars'', owners = map user_id os,
             videos = vs, images = im, thumbnail = th\<rparr> os = (Inr resp, w')"
    unfolding addProject_try_def Let_def
    by (auto split: option.splits if_splits sum.splits prod.splits)
  from upload_media_frame[OF um] create_and_push_success[OF cp] find_owners_found[OF os] ru ou
  show ?thesis
    unfolding s
    by (intro exI[of _ ru] exI[of _ ou]
        exI[of _ "\<lparr>project_id = nextObjectId w, name = body req ''name'', repoId = body req ''repoId'',
             url = body req ''url'', description = body req ''description'',
             domain = body req ''domain'', techStacks = map trim (split_comma ts),
             stars = body req ''stars'', owners = map user_id os,
             videos = vs, images = im, thumbnail = th\<rparr>"] exI[of _ os]) simp
qed

lemma addProject_missing_owner:
  assumes "req_user req = Some ru" "body req ''ownersUsernames'' = Some ou"
    "body req ''techStack'' = Some ts"
    "truthy (body req ''name'')" "truthy (body req ''repoId'')" "truthy (body req ''url'')"
    "truthy (body req ''description'')" "truthy (body req ''domain'')"
    "missing \<in> set (map trim (split_comma ou))"
    "\<not> list_ex (\<lambda>u. username_is u (Some missing)) (User w)"
  shows "\<exists>k. k \<in> set (map trim (split_comma ou)) \<and> \<not> list_ex (\<lambda>u. username_is u (Some k)) (User w) \<and>
           addProject E a w req =
             (Inl (ApiError 404 (''Owner with username '' @ k @ '' not found'')), w)"
proof -
  from find_owners_missing[OF assms(9,10)] obtain k where
    k: "k \<in> set (map trim (split_comma ou))" "\<not> list_ex (\<lambda>u. username_is u (Some k)) (User w)"
    and f: "find_owners (User w) (map trim (split_comma ou)) =
              Inl (ApiError 404 (''Owner with username '' @ k @ '' not found''))"
    by blast
  have "addProject E a w req =
             (Inl (ApiError 404 (''Owner with username '' @ k @ '' not found'')), w)"
    using assms(1-8) f
    by (simp add: addProject_def addProject_try_def catch_rethrow_def rethrow_def Let_def)
  with k show ?thesis by blast
qed

lemmas add_project_defs = add_project_def add_project_ghost_def add_project_ghost_no_name_def
  empty_request_def

lemma split_alice_ghost: "map trim (split_comma ''ALICE, ghost'') = [''ALICE'', ''ghost'']"
  by (simp add: trim_def js_whitespace_def)

lemma split_hol_ml: "map trim (split_comma ''hol, ml'') = [''hol'', ''ml'']"
  by (simp add: trim_def js_whitespace_def)

lemma split_alice: "map trim (split_comma ''ALICE'') = [''ALICE'']"
  by (simp add: trim_def js_whitespace_def)

lemma trims: "trim ''ALICE'' = ''ALICE''" "trim ''hol'' = ''hol''" "trim '' ml'' = ''ml''"
  "trim '' ghost'' = ''ghost''" "trim ''ghost'' = ''ghost''"
  by (simp_all add: trim_def js_whitespace_def)

lemma setters_ghost: "username_setters ''ghost'' = ''ghost''"
  by code_simp

lemma add_project_owner:
  "findOne (\<lambda>u. username_is u (Some ''ALICE'')) (User example_world) = Some alice"
  "findOne (\<lambda>u. username_is u (Some ''ghost'')) (User example_world) = None"
  using setters_ALICE(2) setters_ghost
  by (simp_all add: findOne_def username_is_def field_is_def example_world_def alice_def)

lemma add_project_media:
  "upload_media example_env example_world add_project = (Inr ([], [], []), example_world)"
  by (simp add: upload_media_def upload_all_def upload_first_def add_project_defs)

lemma add_project_store:
  "create_and_push example_env example_ambient example_world (select_public alice)
     (demo_project\<lparr>project_id := 0\<rparr>) [alice] =
     (Inr (respond 200 200 (ProjectObject demo_project [alice]) ''New project added successfully''),
      example_world\<lparr>Project := [demo_project], nextObjectId := 4,
                    User := [alice\<lparr>projects := [3]\<rparr>]\<rparr>)"
  by (simp add: create_and_push_def Project_create_def push_project_and_save_def
      update_user_def pre_save_def select_public_def Let_def
      example_world_def example_env_def alice_def demo_project_def)

lemma add_project_run:
  "addProject example_env example_ambient example_world add_project =
     (Inr (respond 200 200 (ProjectObject demo_project [alice]) ''New project added successfully''),
      example_world\<lparr>Project := [demo_project], nextObjectId := 4,
                    User := [alice\<lparr>projects := [3]\<rparr>]\<rparr>)"
proof -
  have b: "req_user add_project = Some (select_public alice)"
    "body add_project ''ownersUsernames'' = Some ''ALICE''"
    "body add_project ''techStack'' = Some ''hol, ml''"
    "truthy (body add_project ''name'')" "truthy (body add_project ''repoId'')"
    "truthy (body add_project ''url'')" "truthy (body add_project ''description'')"
    "truthy (body add_project ''domain'')"
    by (simp_all add: add_project_defs truthy_def)
  have p: "\<lparr>project_id = 0, name = body add_project ''name'', repoId = body add_project ''repoId'',
             url = body add_project ''url'', description = body add_project ''description'',
             domain = body add_project ''domain'', techStacks = [''hol'', ''ml''],
             stars = body add_project ''stars'', owners = [user_id alice],
             videos = [], images = [], thumbnail = []\<rparr> = demo_project\<lparr>project_id := 0\<rparr>"
    by (simp add: add_project_defs demo_project_def alice_def)
  show ?thesis
    unfolding addProject_def addProject_try_def
    by (simp add: b trims add_project_owner add_project_media p add_project_store
        catch_rethrow_def Let_def)
qed

text \<open>
  C7, as amended. For a project-creation request of an authenticated user that carries the
  owner list and the tech stack and non-empty \<open>name\<close>, \<open>repoId\<close>, \<open>url\<close>,
  \<open>description\<close> and \<open>domain\<close>: the comma-separated owner names are trimmed and looked
  up by username, the listed name compared as the schema's setters on the path leave it
  (trimmed and lower-cased); when a listed name has no user the request fails with a 404
  that names such an owner and the world is as before. Whenever the request fails with a
  404, no Project is persisted and the projects list of the creating user is unchanged.
  When the request succeeds, every listed name was resolved to a User document, the Project
  with the ids of these owners is appended to the collection under a fresh id, that id is
  appended to the stored projects list of the creating user, and the response carries the
  project with the owner documents.
\<close>

theorem addProject_outcomes:
  "(req_user req = Some ru \<and> body req ''ownersUsernames'' = Some ou \<and>
    body req ''techStack'' = Some ts \<and>
    truthy (body req ''name'') \<and> truthy (body req ''repoId'') \<and> truthy (body req ''url'') \<and>
    truthy (body req ''description'') \<and> truthy (body req ''domain'') \<and>
    missing \<in> set (map trim (split_comma ou)) \<and>
    \<not> list_ex (\<lambda>u. username_is u (Some missing)) (User w)
      \<longrightarrow> (\<exists>k. k \<in> set (map trim (split_comma ou)) \<and>
               \<not> list_ex (\<lambda>u. username_is u (Some k)) (User w) \<and>
               addProject E a w req =
                 (Inl (ApiError 404 (''Owner with username '' @ k @ '' not found'')), w)))
 \<and> (fst (addProject E a w req) = Inl (ApiError 404 m) \<longrightarrow> snd (addProject E a w req) = w)
 \<and> (fst (addProject E a w req) = Inr resp
      \<longrightarrow> (\<exists>ru ou p os. req_user req = Some ru \<and> body req ''ownersUsernames'' = Some ou \<and>
             list_all2 (\<lambda>n u. u \<in> set (User w) \<and> username_is u (Some n))
               (map trim (split_comma ou)) os \<and>
             owners p = map user_id os \<and> project_id p = nextObjectId w \<and>
             resp = respond 200 200 (ProjectObject p os) ''New project added successfully'' \<and>
             Project (snd (addProject E a w req)) = Project w @ [p] \<and>
             list_ex (\<lambda>u. user_id u = user_id ru) (User w) \<and>
             User (snd (addProject E a w req)) =
               map (\<lambda>u. if user_id u = user_id ru
                         then u\<lparr>projects := projects u @ [project_id p]\<rparr> else u) (User w)))"
proof (intro conjI impI)
  assume "req_user req = Some ru \<and> body req ''ownersUsernames'' = Some ou \<and>
    body req ''techStack'' = Some ts \<and>
    truthy (body req ''name'') \<and> truthy (body req ''repoId'') \<and> truthy (body req ''url'') \<and>
    truthy (body req ''description'') \<and> truthy (body req ''domain'') \<and>
    missing \<in> set (map trim (split_comma ou)) \<and>
    \<not> list_ex (\<lambda>u. username_is u (Some missing)) (User w)"
  then show "\<exists>k. k \<in> set (map trim (split_comma ou)) \<and>
               \<not> list_ex (\<lambda>u. username_is u (Some k)) (User w) \<and>
               addProject E a w req =
                 (Inl (ApiError 404 (''Owner with username '' @ k @ '' not found'')), w)"
    by (intro addProject_missing_owner[of req ru ou ts missing w E a]) simp_all
next
  assume "fst (addProject E a w req) = Inl (ApiError 404 m)"
  then show "snd (addProject E a w req) = w"
    by (rule addProject_404_unchanged)
next
  assume "fst (addProject E a w req) = Inr resp"
  then show "\<exists>ru ou p os. req_user req = Some ru \<and> body req ''ownersUsernames'' = Some ou \<and>
             list_all2 (\<lambda>n u. u \<in> set (User w) \<and> username_is u (Some n))
               (map trim (split_comma ou)) os \<and>
             owners p = map user_id os \<and> project_id p = nextObjectId w \<and>
             resp = respond 200 200 (ProjectObject p os) ''New project added successfully'' \<and>
             Project (snd (addProject E a w req)) = Project w @ [p] \<and>
             list_ex (\<lambda>u. user_id u = user_id ru) (User w) \<and>
             User (snd (addProject E a w req)) =
               map (\<lambda>u. if user_id u = user_id ru
                         then u\<lparr>projects := projects u @ [project_id p]\<rparr> else u) (User w)"
    by (rule addProject_success)
qed

theorem addProject_outcomes_witness:
  "addProject example_env example_ambient example_world add_project_ghost =
     (Inl (ApiError 404 ''Owner with username ghost not found''), example_world)
   \<and> fst (addProject example_env example_ambient example_world add_project) =
       Inr (respond 200 200 (ProjectObject demo_project [alice]) ''New project added successfully'')
   \<and> Project (snd (addProject example_env example_ambient example_world add_project)) =
       [demo_project]
   \<and> User (snd (addProject example_env example_ambient example_world add_project)) =
       [alice\<lparr>projects := [3]\<rparr>]"
proof -
  have names: "map trim (split_comma ''ALICE, ghost'') = [''ALICE'', ''ghost'']"
    by (simp add: trims)
  have a: "req_user add_project_ghost = Some (select_public alice) \<and>
      body add_project_ghost ''ownersUsernames'' = Some ''ALICE, ghost'' \<and>
      body add_project_ghost ''techStack'' = Some ''hol, ml'' \<and>
      truthy (body add_project_ghost ''name'') \<and> truthy (body add_project_ghost ''repoId'') \<and>
      truthy (body add_project_ghost ''url'') \<and> truthy (body add_project_ghost ''description'') \<and>
      truthy (body add_project_ghost ''domain'') \<and>
      ''ghost'' \<in> set (map trim (split_comma ''ALICE, ghost'')) \<and>
      \<not> list_ex (\<lambda>u. username_is u (Some ''ghost'')) (User example_world)"
    unfolding names using setters_ghost
    by (simp add: add_project_defs truthy_def example_world_def alice_def username_is_def
        field_is_def)
  have only: "k = ''ghost''" if "k \<in> set (map trim (split_comma ''ALICE, ghost''))"
      "\<not> list_ex (\<lambda>u. username_is u (Some k)) (User example_world)" for k
    using that setters_ALICE(2) unfolding names
    by (auto simp: example_world_def alice_def username_is_def field_is_def)
  have ok: "fst (addProject example_env example_ambient example_world add_project) =
       Inr (respond 200 200 (ProjectObject demo_project [alice]) ''New project added successfully'')"
    by (simp add: add_project_run)
  have first: "addProject example_env example_ambient example_world add_project_ghost =
     (Inl (ApiError 404 ''Owner with username ghost not found''), example_world)"
  proof -
    from addProject_outcomes[where req = add_project_ghost and ru = "select_public alice"
        and ou = "''ALICE, ghost''" and ts = "''hol, ml''" and missing = "''ghost''"
        and w = example_world and E = example_env and a = example_ambient] a
    obtain k where k: "k \<in> set (map trim (split_comma ''ALICE, ghost''))"
        "\<not> list_ex (\<lambda>u. username_is u (Some k)) (User example_world)"
      and r: "addProject example_env example_ambient example_world add_project_ghost =
                 (Inl (ApiError 404 (''Owner with username '' @ k @ '' not found'')), example_world)"
      by blast
    from only[OF k] r show ?thesis by simp
  qed
  have third: "Project (snd (addProject example_env example_ambient example_world add_project)) =
       [demo_project] \<and>
     User (snd (addProject example_env example_ambient example_world add_project)) =
       [alice\<lparr>projects := [3]\<rparr>]"
    by (simp add: add_project_run)
  from first ok third show ?thesis by simp
qed

text \<open>
  C7 as stated fails for a request of an authenticated user that lists an owner without a
  user and has no \<open>name\<close>: the required-field check comes before the owner lookup and the
  error is the 400, not the 404.
\<close>

theorem addProject_missing_owner_counterexample:
  "req_user add_project_ghost_no_name = Some (select_public alice)
   \<and> body add_project_ghost_no_name ''ownersUsernames'' = Some ''ghost''
   \<and> User example_world = [alice] \<and> username alice = ''alice''
   \<and> addProject example_env example_ambient example_world add_project_ghost_no_name =
       (Inl (ApiError 400 ''Missing required project data''), example_world)"
  by (simp add: addProject_def addProject_try_def catch_rethrow_def rethrow_def Let_def
      add_project_defs truthy_def example_world_def alice_def)

text \<open>
  The response of \<open>addProject\<close> carries the owner documents as the lookup returned them,
  with the stored password hash and the stored refresh token.
\<close>

lemma add_project_response_shows_owner:
  "response_users (json_data (projr (fst (addProject example_env example_ambient example_world
      add_project)))) = [alice]
   \<and> password alice = Some ''s1$dnalrednow'' \<and> refreshToken alice = Some ''R.u.t''"
  using example_tokens(3)
  by (simp add: add_project_run respond_def alice_def example_hash_def)

section \<open>Stored passwords\<close>

lemma credentials_password:
  "map credentials us = map credentials vs \<Longrightarrow> map password us = map password vs"
proof -
  assume "map credentials us = map credentials vs"
  then have "map (\<lambda>c. snd (snd (snd c))) (map credentials us) =
             map (\<lambda>c. snd (snd (snd c))) (map credentials vs)"
    by simp
  then show ?thesis
    by (simp add: credentials_def comp_def)
qed

lemma User_create_Inl_world: "User_create E a w p = (Inl e, w') \<Longrightarrow> w' = w"
  by (auto simp: User_create_def Let_def split: if_splits option.splits)

lemma is_hash_hash: "is_hash E (Some (bcrypt_hash E d salt))"
  unfolding is_hash_def by blast

lemma verifyOtp_passwords:
  "map password (User (snd (verifyOtp E a w req))) = map password (User w) \<or>
   (\<exists>ud d. body_userData req = Some ud \<and> ud ''password'' = Some d \<and>
      map password (User (snd (verifyOtp E a w req))) =
        map password (User w) @ [Some (bcrypt_hash E d (genSalt a))])"
proof -
  obtain r w' where t: "verifyOtp_try E a w req = (r, w')"
    by (cases "verifyOtp_try E a w req")
  then have s: "snd (verifyOtp E a w req) = w'"
    by (simp add: verifyOtp_def)
  from t have "User w' = User w \<or>
     (\<exists>w1 u. User w1 = User w \<and> User_create E a w1 (body_userData req) = (Inr u, w'))"
    unfolding verifyOtp_try_def Let_def
    by (fastforce split: if_splits option.splits sum.splits prod.splits
        dest: User_create_Inl_world)
  then show ?thesis
  proof
    assume "User w' = User w"
    then show ?thesis by (simp add: s)
  next
    assume "\<exists>w1 u. User w1 = User w \<and> User_create E a w1 (body_userData req) = (Inr u, w')"
    then obtain w1 u where w1: "User w1 = User w"
      and c: "User_create E a w1 (body_userData req) = (Inr u, w')"
      by blast
    from User_create_password[OF c] obtain ud d where
      "body_userData req = Some ud" "ud ''password'' = Some d"
      "password u = Some (bcrypt_hash E d (genSalt a))"
      by blast
    moreover from User_create_cases[OF c] have "User w' = User w1 @ [u]"
      by auto
    ultimately show ?thesis
      using w1 by (auto simp: s)
  qed
qed

lemma handle_passwords:
  "map password (User (snd (handle ep E a w req))) = map password (User w) \<or>
   (\<exists>ud d. ep = VerifyOtp \<and> body_userData req = Some ud \<and> ud ''password'' = Some d \<and>
      map password (User (snd (handle ep E a w req))) =
        map password (User w) @ [Some (bcrypt_hash E d (genSalt a))])"
proof (cases ep)
  case VerifyOtp
  then show ?thesis using verifyOtp_passwords[of E a w req] by simp
qed (simp_all add: registerUser_User fetchUserData_User fetchUserProjects_User fetchProject_User
      sendEmail_User credentials_password[OF loginUser_credentials]
      credentials_password[OF logoutUser_credentials]
      credentials_password[OF refreshAccessToken_credentials]
      credentials_password[OF addProject_credentials])

lemma passwords_hashed_map:
  "passwords_hashed E w \<longleftrightarrow> list_all (is_hash E) (map password (User w))"
  by (simp add: passwords_hashed_def list_all_iff)

lemma handle_passwords_hashed:
  assumes "passwords_hashed E w"
  shows "passwords_hashed E (snd (handle ep E a w req))"
  using handle_passwords[of ep E a w req] assms
  unfolding passwords_hashed_map
  by (auto simp: is_hash_hash)

lemma reachable_passwords_hashed: "reachable E w \<Longrightarrow> passwords_hashed E w"
proof (induction rule: reachable.induct)
  case start
  then show ?case by (simp add: passwords_hashed_def empty_world_def)
next
  case (request w ep a req)
  then show ?case by (simp add: handle_passwords_hashed)
next
  case (expiry w alive)
  then show ?case by (simp add: passwords_hashed_def)
qed

lemma example_hash_not_identity: "example_hash d salt \<noteq> d"
proof
  assume "example_hash d salt = d"
  then have "length (example_hash d salt) = length d" by simp
  then show False by (simp add: example_hash_def)
qed

lemma register_carol_run:
  "snd (registerUser example_env example_ambient empty_world register_carol) =
     empty_world\<lparr>OtpVerification :=
                    [\<lparr>otp_id = 0, otp_email = ''carol@x.io'', otp = example_hash ''4711'' ''s2''\<rparr>],
                  nextObjectId := 1, mailed := [(''carol@x.io'', ''4711'')]\<rparr>"
  using toLowerCase_Carol
  by (simp add: registerUser_def registerUser_try_def catch_rethrow_def Let_def blank_def
      upload_first_def sendOtpVerificationEmail_def register_defs trim_def js_whitespace_def
      findOne_def example_env_def example_ambient_def empty_world_def truthy_def)

lemma verify_carol_run:
  "User (snd (verifyOtp example_env example_ambient
           (empty_world\<lparr>OtpVerification :=
                    [\<lparr>otp_id = 0, otp_email = ''carol@x.io'', otp = example_hash ''4711'' ''s2''\<rparr>],
                  nextObjectId := 1, mailed := [(''carol@x.io'', ''4711'')]\<rparr>)
           verify_carol_code)) = [carol]"
  by (simp add: verifyOtp_def verifyOtp_try_def catch_rethrow_def compare_def
      truthy_def ud_email_def findOne_def field_is_def findByIdAndDelete_def User_create_def
      apply_setters_def validate_user_def js_string_defs cast_defs Let_def duplicate_key_def
      required_path_def pre_save_def example_ambient_def
      verify_carol_code_def empty_request_def carol_payload_def empty_world_def
      example_env_def example_compare_def example_hash_def carol_def)

text \<open>
  C9. The stored password of a User record is never the plaintext: every handler leaves
  the stored passwords as they were, except a \<open>verifyOtp\<close> that creates a user, which
  appends the bcrypt hash, under the fresh salt, of the password in the payload (the save
  hook hashes at write time). So the invariant that every stored password is an output of
  the bcrypt hash is preserved by every handler and holds in every world the application
  can reach from the empty database. With a hash that never returns its input, the password
  stored for the created user differs from the plaintext submitted.
\<close>

theorem stored_passwords_are_hashes:
  "(passwords_hashed E w \<longrightarrow> passwords_hashed E (snd (handle ep E a w req)))
 \<and> (map password (User (snd (handle ep E a w req))) = map password (User w) \<or>
    (\<exists>ud d. ep = VerifyOtp \<and> body_userData req = Some ud \<and> ud ''password'' = Some d \<and>
       map password (User (snd (handle ep E a w req))) =
         map password (User w) @ [Some (bcrypt_hash E d (genSalt a))]))
 \<and> (reachable E w0 \<longrightarrow> passwords_hashed E w0)
 \<and> ((\<forall>d salt. bcrypt_hash E d salt \<noteq> d) \<and> body_userData req = Some ud \<and>
     ud ''password'' = Some plain \<and> User (snd (verifyOtp E a w req)) = User w @ [u]
      \<longrightarrow> password u = Some (bcrypt_hash E plain (genSalt a)) \<and> password u \<noteq> Some plain)"
proof (intro conjI impI)
  assume "passwords_hashed E w"
  then show "passwords_hashed E (snd (handle ep E a w req))"
    by (rule handle_passwords_hashed)
next
  show "map password (User (snd (handle ep E a w req))) = map password (User w) \<or>
    (\<exists>ud d. ep = VerifyOtp \<and> body_userData req = Some ud \<and> ud ''password'' = Some d \<and>
       map password (User (snd (handle ep E a w req))) =
         map password (User w) @ [Some (bcrypt_hash E d (genSalt a))])"
    by (rule handle_passwords)
next
  assume "reachable E w0"
  then show "passwords_hashed E w0"
    by (rule reachable_passwords_hashed)
next
  assume h: "(\<forall>d salt. bcrypt_hash E d salt \<noteq> d) \<and> body_userData req = Some ud \<and>
     ud ''password'' = Some plain \<and> User (snd (verifyOtp E a w req)) = User w @ [u]"
  then have "map password (User (snd (verifyOtp E a w req))) \<noteq> map password (User w)"
    by (metis length_map length_append_singleton n_not_Suc_n)
  with verifyOtp_passwords[of E a w req] h
  have p: "password u = Some (bcrypt_hash E plain (genSalt a))"
    by auto
  then show "password u = Some (bcrypt_hash E plain (genSalt a))" .
  from p h show "password u \<noteq> Some plain"
    by simp
qed

theorem stored_passwords_are_hashes_witness:
  "passwords_hashed example_env
     (snd (handle VerifyOtp example_env example_ambient example_world verify_bob))
   \<and> map password (User (snd (handle VerifyOtp example_env example_ambient example_world
                                 verify_bob))) =
       [Some ''s1$dnalrednow'', Some ''s2$redliub'']
   \<and> passwords_hashed example_env
        (snd (handle VerifyOtp example_env example_ambient
               (snd (handle RegisterUser example_env example_ambient empty_world register_carol))
               verify_carol_code))
   \<and> User (snd (handle VerifyOtp example_env example_ambient
               (snd (handle RegisterUser example_env example_ambient empty_world register_carol))
               verify_carol_code)) = [carol]
   \<and> password bob = Some ''s2$redliub'' \<and> password bob \<noteq> Some ''builder''"
proof -
  let ?W = "snd (handle VerifyOtp example_env example_ambient
               (snd (handle RegisterUser example_env example_ambient empty_world register_carol))
               verify_carol_code)"
  have inv: "passwords_hashed example_env example_world"
    unfolding passwords_hashed_def example_world_def alice_def
    by (simp add: example_env_def is_hash_def) blast
  have run: "User (snd (verifyOtp example_env example_ambient example_world verify_bob)) =
               User example_world @ [bob]"
    unfolding verify_bob_run by (simp add: example_world_def)
  have reach: "reachable example_env ?W"
    by (intro reachable.request reachable.start)
  have nonid: "\<forall>d salt. bcrypt_hash example_env d salt \<noteq> d"
    by (simp add: example_env_def example_hash_not_identity)
  have pl: "body_userData verify_bob = Some bob_payload" "bob_payload ''password'' = Some ''builder''"
    by (simp_all add: verify_bob_def empty_request_def bob_payload_def)
  have one: "passwords_hashed example_env
     (snd (handle VerifyOtp example_env example_ambient example_world verify_bob))"
    using stored_passwords_are_hashes[where E = example_env and w = example_world
        and ep = VerifyOtp and a = example_ambient and req = verify_bob] inv
    by blast
  have three: "passwords_hashed example_env ?W"
    using stored_passwords_are_hashes[where E = example_env and ?w0.0 = ?W] reach
    by blast
  have four: "password bob = Some (bcrypt_hash example_env ''builder'' (genSalt example_ambient))
      \<and> password bob \<noteq> Some ''builder''"
    using stored_passwords_are_hashes[where E = example_env and w = example_world
        and a = example_ambient and req = verify_bob and ud = bob_payload
        and plain = "''builder''" and u = bob] nonid pl run
    by blast
  have two: "map password (User (snd (handle VerifyOtp example_env example_ambient example_world
                                 verify_bob))) =
       [Some ''s1$dnalrednow'', Some ''s2$redliub'']"
    by (simp add: verify_bob_run alice_def bob_def example_hash_def)
  have five: "User ?W = [carol]"
    unfolding handle.simps register_carol_run verify_carol_run by simp
  have six: "password bob \<noteq> Some ''builder''"
    using four by blast
  have seven: "password bob = Some ''s2$redliub''"
    by (simp add: bob_def example_hash_def)
  from one two three five six seven show ?thesis
    by blast
qed

section \<open>The worlds the application reaches\<close>

text \<open>
  Two facts the statements above assume of a world hold in every world reached from the
  empty database: object ids of users are unique, and the OTP collection has at most one
  record per email.
\<close>

lemma fetchUserData_world: "snd (fetchUserData E a w req) = w"
  unfolding fetchUserData_def fetchUserData_try_def Let_def
  by (auto split: option.splits prod.splits sum.splits if_splits)

lemma fetchUserProjects_world: "snd (fetchUserProjects E a w req) = w"
  unfolding fetchUserProjects_def fetchUserProjects_try_def Let_def
  by (auto split: option.splits)

lemma fetchProject_world: "snd (fetchProject E a w req) = w"
  unfolding fetchProject_def fetchProject_try_def Let_def
  by (auto split: option.splits)

lemma duplicate_key_id: "\<not> duplicate_key us u \<Longrightarrow> user_id u \<notin> set (map user_id us)"
  by (auto simp: duplicate_key_def list_ex_iff)

lemma User_create_ids:
  "User_create E a w p = (r, w') \<Longrightarrow>
   User w' = User w \<or> (\<exists>u. User w' = User w @ [u] \<and> user_id u \<notin> set (map user_id (User w)))"
proof -
  assume "User_create E a w p = (r, w')"
  then have "User w' = User w \<or> (\<exists>u. User w' = User w @ [u] \<and> \<not> duplicate_key (User w) u)"
    by (auto simp: User_create_def Let_def split: if_splits option.splits)
  then show ?thesis
    using duplicate_key_id by blast
qed

lemma verifyOtp_ids:
  "User (snd (verifyOtp E a w req)) = User w \<or>
   (\<exists>u. User (snd (verifyOtp E a w req)) = User w @ [u] \<and>
        user_id u \<notin> set (map user_id (User w)))"
proof -
  obtain r w' where t: "verifyOtp_try E a w req = (r, w')"
    by (cases "verifyOtp_try E a w req")
  then have s: "snd (verifyOtp E a w req) = w'"
    by (simp add: verifyOtp_def)
  from t have "User w' = User w \<or>
     (\<exists>w1 x. User w1 = User w \<and> User_create E a w1 (body_userData req) = (x, w'))"
    unfolding verifyOtp_try_def Let_def
    by (fastforce split: if_splits option.splits sum.splits prod.splits)
  then show ?thesis
    unfolding s using User_create_ids by metis
qed

lemma credentials_ids:
  "map credentials us = map credentials vs \<Longrightarrow> map user_id us = map user_id vs"
proof -
  assume "map credentials us = map credentials vs"
  then have "map fst (map credentials us) = map fst (map credentials vs)"
    by simp
  then show ?thesis
    by (simp add: credentials_def comp_def)
qed

lemma unique_ids_same:
  "unique_ids w \<Longrightarrow> map user_id (User w') = map user_id (User w) \<Longrightarrow> unique_ids w'"
  by (simp add: unique_ids_def)

lemma handle_unique_ids:
  assumes "unique_ids w"
  shows "unique_ids (snd (handle ep E a w req))"
proof (cases ep)
  case RegisterUser
  show ?thesis
    unfolding RegisterUser handle.simps
    by (rule unique_ids_same[OF assms]) (simp add: registerUser_User)
next
  case LoginUser
  show ?thesis
    unfolding LoginUser handle.simps
    by (rule unique_ids_same[OF assms]) (rule credentials_ids[OF loginUser_credentials])
next
  case LogoutUser
  show ?thesis
    unfolding LogoutUser handle.simps
    by (rule unique_ids_same[OF assms]) (rule credentials_ids[OF logoutUser_credentials])
next
  case RefreshAccessToken
  show ?thesis
    unfolding RefreshAccessToken handle.simps
    by (rule unique_ids_same[OF assms]) (rule credentials_ids[OF refreshAccessToken_credentials])
next
  case VerifyOtp
  from verifyOtp_ids[of E a w req] show ?thesis
    unfolding VerifyOtp handle.simps
  proof
    assume "User (snd (verifyOtp E a w req)) = User w"
    then show "unique_ids (snd (verifyOtp E a w req))"
      using assms by (simp add: unique_ids_def)
  next
    assume "\<exists>u. User (snd (verifyOtp E a w req)) = User w @ [u] \<and>
                user_id u \<notin> set (map user_id (User w))"
    then obtain u where "User (snd (verifyOtp E a w req)) = User w @ [u]"
      "user_id u \<notin> set (map user_id (User w))"
      by blast
    then show "unique_ids (snd (verifyOtp E a w req))"
      using assms by (simp add: unique_ids_def)
  qed
next
  case FetchUserData
  then show ?thesis using assms by (simp add: fetchUserData_world)
next
  case AddProject
  show ?thesis
    unfolding AddProject handle.simps
    by (rule unique_ids_same[OF assms]) (rule credentials_ids[OF addProject_credentials])
next
  case FetchUserProjects
  then show ?thesis using assms by (simp add: fetchUserProjects_world)
next
  case FetchProject
  then show ?thesis using assms by (simp add: fetchProject_world)
next
  case SendEmail
  show ?thesis
    unfolding SendEmail handle.simps
    by (rule unique_ids_same[OF assms]) (simp add: sendEmail_User)
qed

lemma reachable_unique_ids: "reachable E w \<Longrightarrow> unique_ids w"
proof (induction rule: reachable.induct)
  case start
  then show ?case by (simp add: unique_ids_def empty_world_def)
next
  case (request w ep a req)
  then show ?case by (simp add: handle_unique_ids)
next
  case (expiry w alive)
  then show ?case by (simp add: unique_ids_def)
qed

lemma upload_first_otps: "upload_first E w fs h = (r, w') \<Longrightarrow> OtpVerification w' = OtpVerification w"
  by (auto simp: upload_first_def split: option.splits list.splits upload_result.splits)

lemma sendOtp_keyed:
  "sendOtpVerificationEmail E a w ud = (r, w') \<Longrightarrow> keyed_by_email w \<Longrightarrow> keyed_by_email w'"
  by (auto simp: sendOtpVerificationEmail_def Let_def keyed_by_email_def distinct_map_filter
      split: option.splits if_splits)

lemma helper_otps:
  "generateAccessTokenAndRefreshToken E a w i = (r, w') \<Longrightarrow> OtpVerification w' = OtpVerification w"
  by (auto simp: generateAccessTokenAndRefreshToken_def Let_def split: option.splits)

lemma upload_all_otps: "upload_all E w k fs = (r, w') \<Longrightarrow> OtpVerification w' = OtpVerification w"
  by (auto simp: upload_all_def split: option.splits)

lemma upload_media_otps: "upload_media E w req = (r, w') \<Longrightarrow> OtpVerification w' = OtpVerification w"
  unfolding upload_media_def
  by (auto split: prod.splits sum.splits dest!: upload_all_otps upload_first_otps)

lemma create_and_push_otps:
  "create_and_push E a w ru p os = (r, w') \<Longrightarrow> OtpVerification w' = OtpVerification w"
  unfolding create_and_push_def Project_create_def push_project_and_save_def Let_def
  by (auto split: prod.splits sum.splits if_splits)

lemma registerUser_keyed:
  "keyed_by_email w \<Longrightarrow> keyed_by_email (snd (registerUser E a w req))"
proof -
  assume k: "keyed_by_email w"
  obtain r w' where t: "registerUser_try E a w req = (r, w')"
    by (cases "registerUser_try E a w req")
  have up: "keyed_by_email v'" if "upload_first E v fs h = (x, v')" "keyed_by_email v" for v v' fs h x
    using upload_first_otps[OF that(1)] that(2) by (simp add: keyed_by_email_def)
  from t k have "keyed_by_email w'"
    unfolding registerUser_try_def Let_def
    by (auto split: option.splits prod.splits sum.splits if_splits
        dest: up sendOtp_keyed)
  with t show ?thesis by (simp add: registerUser_def)
qed

lemma verifyOtp_keyed:
  "keyed_by_email w \<Longrightarrow> keyed_by_email (snd (verifyOtp E a w req))"
proof -
  assume k: "keyed_by_email w"
  obtain r w' where t: "verifyOtp_try E a w req = (r, w')"
    by (cases "verifyOtp_try E a w req")
  from t have "OtpVerification w' = OtpVerification w \<or>
      (\<exists>i. OtpVerification w' = findByIdAndDelete i (OtpVerification w))"
    unfolding verifyOtp_try_def User_create_def Let_def
    by (fastforce split: if_splits option.splits sum.splits prod.splits)
  with k have "keyed_by_email w'"
    by (auto simp: keyed_by_email_def findByIdAndDelete_def distinct_map_filter)
  with t show ?thesis by (simp add: verifyOtp_def)
qed

lemma other_otps:
  "OtpVerification (snd (loginUser E a w req)) = OtpVerification w"
  "OtpVerification (snd (logoutUser E a w req)) = OtpVerification w"
  "OtpVerification (snd (refreshAccessToken E a w req)) = OtpVerification w"
  "OtpVerification (snd (sendEmail E a w req)) = OtpVerification w"
  unfolding loginUser_def logoutUser_def refreshAccessToken_def refreshAccessToken_try_def
    sendEmail_def sendEmail_try_def Let_def
  by (auto split: option.splits prod.splits sum.splits if_splits dest!: helper_otps)

lemma addProject_otps: "OtpVerification (snd (addProject E a w req)) = OtpVerification w"
proof -
  obtain r w' where t: "addProject_try E a w req = (r, w')"
    by (cases "addProject_try E a w req")
  then have "OtpVerification w' = OtpVerification w"
    unfolding addProject_try_def Let_def
    by (auto split: option.splits prod.splits sum.splits if_splits
        dest!: upload_media_otps create_and_push_otps)
  with t show ?thesis by (simp add: addProject_def)
qed

lemma keyed_same_otps:
  "keyed_by_email w \<Longrightarrow> OtpVerification w' = OtpVerification w \<Longrightarrow> keyed_by_email w'"
  by (simp add: keyed_by_email_def)

lemma handle_keyed:
  assumes "keyed_by_email w"
  shows "keyed_by_email (snd (handle ep E a w req))"
proof (cases ep)
  case RegisterUser
  then show ?thesis using registerUser_keyed[OF assms] by simp
next
  case VerifyOtp
  then show ?thesis using verifyOtp_keyed[OF assms] by simp
next
  case LoginUser
  then show ?thesis using keyed_same_otps[OF assms other_otps(1)] by simp
next
  case LogoutUser
  then show ?thesis using keyed_same_otps[OF assms other_otps(2)] by simp
next
  case RefreshAccessToken
  then show ?thesis using keyed_same_otps[OF assms other_otps(3)] by simp
next
  case SendEmail
  then show ?thesis using keyed_same_otps[OF assms other_otps(4)] by simp
next
  case AddProject
  then show ?thesis using keyed_same_otps[OF assms addProject_otps] by simp
next
  case FetchUserData
  then show ?thesis using assms by (simp add: fetchUserData_world)
next
  case FetchUserProjects
  then show ?thesis using assms by (simp add: fetchUserProjects_world)
next
  case FetchProject
  then show ?thesis using assms by (simp add: fetchProject_world)
qed

lemma reachable_keyed: "reachable E w \<Longrightarrow> keyed_by_email w"
proof (induction rule: reachable.induct)
  case start
  then show ?case by (simp add: keyed_by_email_def empty_world_def)
next
  case (request w ep a req)
  then show ?case by (simp add: handle_keyed)
next
  case (expiry w alive)
  then show ?case by (simp add: keyed_by_email_def distinct_map_filter)
qed

end
